theory Spec2Isabelle
  imports Main
begin

text \<open>
  The RTI subsystem of the india toolkit: the application with its fee and its draft-time
  deadlines, the renderer and the template question extraction of rti_generator.py, and
  the tracker of rti_tracker.py with its mutators and its overdue query. The first part
  of the theory embeds the code, function by function and under the names it has in the
  source; the second part proves the properties the specification states of it.
\<close>

section \<open>Python values\<close>

text \<open>
  A Python \<^verbatim>\<open>str\<close> is a sequence of Unicode code points, so the model is a list of
  code points: indexing, slicing, \<^verbatim>\<open>split\<close> and \<^verbatim>\<open>join\<close> count what Python counts, and
  the Devanagari literals of the source are lists of numbers. An ASCII literal is written
  \<open>py ''...''\<close>.

  The character classes are those of CPython: \<open>isspace\<close> is its full whitespace table;
  \<open>isdigit\<close> and \<open>lower_char\<close> cover the ASCII range (digits and cased letters of other
  scripts are outside the model; the keys of the fee table are ASCII).
\<close>

type_synonym pystr = "nat list"

definition py :: "string \<Rightarrow> pystr" where
  "py s = map of_char s"

datatype error = OverflowError | TypeError | AttributeError | IndexError | IntegrityError

definition isspace :: "nat \<Rightarrow> bool" where
  "isspace c =
     (c \<in> {9, 10, 11, 12, 13, 28, 29, 30, 31, 32, 133, 160, 5760, 8232, 8233, 8239, 8287, 12288}
      \<or> (8192 \<le> c \<and> c \<le> 8202))"


definition lower_char :: "nat \<Rightarrow> nat" where
  "lower_char c = (if 65 \<le> c \<and> c \<le> 90 then c + 32 else c)"

definition lower :: "pystr \<Rightarrow> pystr" where
  "lower s = map lower_char s"

text \<open>\<^verbatim>\<open>s.replace(a, b)\<close> for one-character \<open>a\<close> and \<open>b\<close>.\<close>

definition replace_char :: "nat \<Rightarrow> nat \<Rightarrow> pystr \<Rightarrow> pystr" where
  "replace_char a b s = map (\<lambda>c. if c = a then b else c) s"

text \<open>\<^verbatim>\<open>s.strip()\<close>: leading and trailing whitespace removed.\<close>

definition strip :: "pystr \<Rightarrow> pystr" where
  "strip s = rev (dropWhile isspace (rev (dropWhile isspace s)))"

text \<open>\<^verbatim>\<open>s.split(c)\<close> for a one-character separator: never an empty list.\<close>

fun split :: "nat \<Rightarrow> pystr \<Rightarrow> pystr list" where
  "split c [] = [[]]"
| "split c (x # xs) =
     (if x = c then [] # split c xs
      else (case split c xs of [] \<Rightarrow> [[x]] | w # ws \<Rightarrow> (x # w) # ws))"



text \<open>\<^verbatim>\<open>sep.join(xs)\<close>.\<close>

fun join :: "pystr \<Rightarrow> pystr list \<Rightarrow> pystr" where
  "join sep [] = []"
| "join sep [x] = x"
| "join sep (x # y # ys) = x @ sep @ join sep (y # ys)"

text \<open>\<^verbatim>\<open>str(n)\<close> and the zero-padded fields of \<^verbatim>\<open>strftime\<close> and \<^verbatim>\<open>isoformat\<close>.\<close>

fun digits :: "nat \<Rightarrow> pystr" where
  "digits n = (if n < 10 then [48 + n] else digits (n div 10) @ [48 + n mod 10])"

definition str_int :: "int \<Rightarrow> pystr" where
  "str_int i = (if i < 0 then 45 # digits (nat (- i)) else digits (nat i))"

definition zfill :: "nat \<Rightarrow> pystr \<Rightarrow> pystr" where
  "zfill w s = replicate (w - length s) 48 @ s"

definition pad :: "nat \<Rightarrow> int \<Rightarrow> pystr" where
  "pad w i = zfill w (str_int i)"

text \<open>Truth value of an \<^verbatim>\<open>Optional[str]\<close>, and \<^verbatim>\<open>x or default\<close>.\<close>

fun truthy :: "pystr option \<Rightarrow> bool" where
  "truthy None = False"
| "truthy (Some s) = (s \<noteq> [])"

fun or_else :: "pystr option \<Rightarrow> pystr \<Rightarrow> pystr" where
  "or_else None d = d"
| "or_else (Some s) d = (if s = [] then d else s)"

text \<open>A \<^verbatim>\<open>dict\<close> literal keeps its items in order; \<^verbatim>\<open>d.get(k, default)\<close>.\<close>

definition dict_get :: "('k \<times> 'v) list \<Rightarrow> 'k \<Rightarrow> 'v \<Rightarrow> 'v" where
  "dict_get d k dflt = (case map_of d k of None \<Rightarrow> dflt | Some v \<Rightarrow> v)"

section \<open>Naive datetimes\<close>

text \<open>
  A naive \<^verbatim>\<open>datetime\<close> is a day of the proleptic Gregorian calendar and a time of day.
  The day is kept as its ordinal (\<^verbatim>\<open>toordinal()\<close>: day 1 is 0001-01-01, the last day
  9999-12-31 is \<open>MAXORDINAL\<close>), which is what \<^verbatim>\<open>datetime + timedelta\<close> computes with;
  year, month and day are read off it by the library's \<open>ord2ymd\<close>.
\<close>

record datetime =
  ordinal :: int
  hour :: int
  minute :: int
  second :: int
  microsecond :: int

definition MAXORDINAL :: int where
  "MAXORDINAL = 3652059"

definition valid_datetime :: "datetime \<Rightarrow> bool" where
  "valid_datetime d =
     (1 \<le> ordinal d \<and> ordinal d \<le> MAXORDINAL \<and> 0 \<le> hour d \<and> hour d < 24 \<and>
      0 \<le> minute d \<and> minute d < 60 \<and> 0 \<le> second d \<and> second d < 60 \<and>
      0 \<le> microsecond d \<and> microsecond d < 1000000)"

text \<open>\<^verbatim>\<open>d + timedelta(days=k)\<close>: the time of day is kept; a day outside the calendar raises.\<close>

definition add_days :: "datetime \<Rightarrow> int \<Rightarrow> error + datetime" where
  "add_days d k =
     (if 0 < ordinal d + k \<and> ordinal d + k \<le> MAXORDINAL
      then Inr (d\<lparr>ordinal := ordinal d + k\<rparr>)
      else Inl OverflowError)"

text \<open>\<^verbatim>\<open>a < b\<close>: the fields in order.\<close>

definition dt_less :: "datetime \<Rightarrow> datetime \<Rightarrow> bool" where
  "dt_less a b =
     (ordinal a < ordinal b \<or> (ordinal a = ordinal b \<and>
       (hour a < hour b \<or> (hour a = hour b \<and>
         (minute a < minute b \<or> (minute a = minute b \<and>
           (second a < second b \<or> (second a = second b \<and>
             microsecond a < microsecond b))))))))"

text \<open>The calendar arithmetic of the standard library (\<^verbatim>\<open>_ymd2ord\<close>, \<^verbatim>\<open>_ord2ymd\<close>).\<close>

definition is_leap :: "int \<Rightarrow> bool" where
  "is_leap y = (y mod 4 = 0 \<and> (y mod 100 \<noteq> 0 \<or> y mod 400 = 0))"

definition days_before_year :: "int \<Rightarrow> int" where
  "days_before_year year = (let y = year - 1 in y * 365 + y div 4 - y div 100 + y div 400)"

definition DAYS_IN_MONTH :: "int list" where
  "DAYS_IN_MONTH = [-1, 31, 28, 31, 30, 31, 30, 31, 31, 30, 31, 30, 31]"

definition DAYS_BEFORE_MONTH :: "int list" where
  "DAYS_BEFORE_MONTH = [-1, 0, 31, 59, 90, 120, 151, 181, 212, 243, 273, 304, 334]"

definition days_before_month :: "int \<Rightarrow> int \<Rightarrow> int" where
  "days_before_month year month =
     DAYS_BEFORE_MONTH ! nat month + (if month > 2 \<and> is_leap year then 1 else 0)"

definition ymd2ord :: "int \<Rightarrow> int \<Rightarrow> int \<Rightarrow> int" where
  "ymd2ord year month day = days_before_year year + days_before_month year month + day"

definition ord2ymd :: "int \<Rightarrow> int \<times> int \<times> int" where
  "ord2ymd n0 =
     (let n = n0 - 1;
          n400 = n div 146097; n = n mod 146097;
          n100 = n div 36524; n = n mod 36524;
          n4 = n div 1461; n = n mod 1461;
          n1 = n div 365; n = n mod 365;
          year = n400 * 400 + 1 + n100 * 100 + n4 * 4 + n1
      in if n1 = 4 \<or> n100 = 4 then (year - 1, 12, 31)
         else
           let leapyear = (n1 = 3 \<and> (n4 \<noteq> 24 \<or> n100 = 3));
               month = (n + 50) div 32;
               preceding = DAYS_BEFORE_MONTH ! nat month + (if month > 2 \<and> leapyear then 1 else 0)
           in if preceding > n
              then let month' = month - 1;
                       preceding' = preceding -
                         (DAYS_IN_MONTH ! nat month' + (if month' = 2 \<and> leapyear then 1 else 0))
                   in (year, month', n - preceding' + 1)
              else (year, month, n - preceding + 1))"

definition year :: "datetime \<Rightarrow> int" where
  "year d = fst (ord2ymd (ordinal d))"

definition month :: "datetime \<Rightarrow> int" where
  "month d = fst (snd (ord2ymd (ordinal d)))"

definition day :: "datetime \<Rightarrow> int" where
  "day d = snd (snd (ord2ymd (ordinal d)))"

text \<open>\<^verbatim>\<open>datetime(y, m, d)\<close> for a date of the calendar: midnight of that day.\<close>

definition mk_date :: "int \<Rightarrow> int \<Rightarrow> int \<Rightarrow> datetime" where
  "mk_date y m d = \<lparr>ordinal = ymd2ord y m d, hour = 0, minute = 0, second = 0, microsecond = 0\<rparr>"

text \<open>
  The three renderings the repository uses: \<^verbatim>\<open>strftime("%d/%m/%Y")\<close>,
  \<^verbatim>\<open>strftime("%Y-%m-%d %H:%M")\<close> and \<^verbatim>\<open>isoformat()\<close>. The year is padded to four
  digits (the C library leaves years before 1000 unpadded on some platforms).
\<close>

definition strftime_dmY :: "datetime \<Rightarrow> pystr" where
  "strftime_dmY d = pad 2 (day d) @ py ''/'' @ pad 2 (month d) @ py ''/'' @ pad 4 (year d)"

definition strftime_Ymd_HM :: "datetime \<Rightarrow> pystr" where
  "strftime_Ymd_HM d =
     pad 4 (year d) @ py ''-'' @ pad 2 (month d) @ py ''-'' @ pad 2 (day d) @ py '' '' @
     pad 2 (hour d) @ py '':'' @ pad 2 (minute d)"

definition isoformat :: "datetime \<Rightarrow> pystr" where
  "isoformat d =
     pad 4 (year d) @ py ''-'' @ pad 2 (month d) @ py ''-'' @ pad 2 (day d) @ py ''T'' @
     pad 2 (hour d) @ py '':'' @ pad 2 (minute d) @ py '':'' @ pad 2 (second d) @
     (if microsecond d = 0 then [] else py ''.'' @ pad 6 (microsecond d))"

section \<open>Fee table and agency directory (rti_generator.py)\<close>

definition FEES :: "(pystr \<times> int) list" where
  "FEES =
    [(py ''central'', 10),
     (py ''andhra_pradesh'', 10),
     (py ''bihar'', 10),
     (py ''chhattisgarh'', 10),
     (py ''delhi'', 10),
     (py ''goa'', 10),
     (py ''gujarat'', 20),
     (py ''haryana'', 10),
     (py ''himachal_pradesh'', 10),
     (py ''jharkhand'', 10),
     (py ''karnataka'', 10),
     (py ''kerala'', 10),
     (py ''madhya_pradesh'', 10),
     (py ''maharashtra'', 10),
     (py ''odisha'', 10),
     (py ''punjab'', 10),
     (py ''rajasthan'', 10),
     (py ''tamil_nadu'', 10),
     (py ''telangana'', 10),
     (py ''uttar_pradesh'', 10),
     (py ''uttarakhand'', 10),
     (py ''west_bengal'', 10)]"

definition agency_awbi :: "(pystr \<times> pystr) list" where
  "agency_awbi =
    [(py ''name'', py ''Animal Welfare Board of India''),
     (py ''name_hi'', [2349, 2366, 2352, 2340, 2368, 2351, 32, 2346, 2358, 2369, 32, 2325, 2354,
        2381, 2351, 2366, 2339, 32, 2348, 2379, 2352, 2381, 2337]),
     (py ''pio_designation'', py ''Public Information Officer''),
     (py ''address'', py ''13/1, Third Seaward Road, Valmiki Nagar, Thiruvanmiyur, Chennai - 600041''),
     (py ''parent_ministry'', py ''Ministry of Fisheries, Animal Husbandry and Dairying''),
     (py ''fee_category'', py ''central''),
     (py ''appellate_authority'', py ''First Appellate Authority, AWBI''),
     (py ''second_appeal'', py ''Central Information Commission, New Delhi'')]"

definition agency_fssai :: "(pystr \<times> pystr) list" where
  "agency_fssai =
    [(py ''name'', py ''Food Safety and Standards Authority of India''),
     (py ''name_hi'', [2349, 2366, 2352, 2340, 2368, 2351, 32, 2326, 2366, 2342, 2381, 2351, 32,
        2360, 2369, 2352, 2325, 2381, 2359, 2366, 32, 2324, 2352, 32, 2350, 2366, 2344, 2325, 32,
        2346, 2381, 2352, 2366, 2343, 2367, 2325, 2352, 2339]),
     (py ''pio_designation'', py ''Central Public Information Officer''),
     (py ''address'', py ''FDA Bhawan, Kotla Road, New Delhi - 110002''),
     (py ''parent_ministry'', py ''Ministry of Health and Family Welfare''),
     (py ''fee_category'', py ''central''),
     (py ''appellate_authority'', py ''First Appellate Authority, FSSAI''),
     (py ''second_appeal'', py ''Central Information Commission, New Delhi'')]"

definition agency_cpcb :: "(pystr \<times> pystr) list" where
  "agency_cpcb =
    [(py ''name'', py ''Central Pollution Control Board''),
     (py ''name_hi'', [2325, 2375, 2306, 2342, 2381, 2352, 2368, 2351, 32, 2346, 2381, 2352, 2342,
        2370, 2359, 2339, 32, 2344, 2367, 2351, 2306, 2340, 2381, 2352, 2339, 32, 2348, 2379,
        2352, 2381, 2337]),
     (py ''pio_designation'', py ''Central Public Information Officer''),
     (py ''address'', py ''Parivesh Bhawan, East Arjun Nagar, Delhi - 110032''),
     (py ''parent_ministry'', py ''Ministry of Environment, Forest and Climate Change''),
     (py ''fee_category'', py ''central''),
     (py ''appellate_authority'', py ''First Appellate Authority, CPCB''),
     (py ''second_appeal'', py ''Central Information Commission, New Delhi'')]"

definition agency_dahd :: "(pystr \<times> pystr) list" where
  "agency_dahd =
    [(py ''name'', py ''Department of Animal Husbandry and Dairying''),
     (py ''name_hi'', [2346, 2358, 2369, 2346, 2366, 2354, 2344, 32, 2324, 2352, 32, 2337, 2375,
        2351, 2352, 2368, 32, 2357, 2367, 2349, 2366, 2327]),
     (py ''pio_designation'', py ''Central Public Information Officer''),
     (py ''address'', py ''Krishi Bhawan, Dr. Rajendra Prasad Road, New Delhi - 110001''),
     (py ''parent_ministry'', py ''Ministry of Fisheries, Animal Husbandry and Dairying''),
     (py ''fee_category'', py ''central''),
     (py ''appellate_authority'', py ''First Appellate Authority, DAHD''),
     (py ''second_appeal'', py ''Central Information Commission, New Delhi'')]"

definition agency_nlm :: "(pystr \<times> pystr) list" where
  "agency_nlm =
    [(py ''name'', py ''National Livestock Mission''),
     (py ''name_hi'', [2352, 2366, 2359, 2381, 2335, 2381, 2352, 2368, 2351, 32, 2346, 2358, 2369,
        2343, 2344, 32, 2350, 2367, 2358, 2344]),
     (py ''pio_designation'', py ''Central Public Information Officer''),
     (py ''address'',
        py ''Department of Animal Husbandry and Dairying, Krishi Bhawan, New Delhi - 110001''),
     (py ''parent_ministry'', py ''Ministry of Fisheries, Animal Husbandry and Dairying''),
     (py ''fee_category'', py ''central''),
     (py ''appellate_authority'', py ''First Appellate Authority, DAHD''),
     (py ''second_appeal'', py ''Central Information Commission, New Delhi'')]"

definition agency_rgm :: "(pystr \<times> pystr) list" where
  "agency_rgm =
    [(py ''name'', py ''Rashtriya Gokul Mission''),
     (py ''name_hi'', [2352, 2366, 2359, 2381, 2335, 2381, 2352, 2368, 2351, 32, 2327, 2379, 2325,
        2369, 2354, 32, 2350, 2367, 2358, 2344]),
     (py ''pio_designation'', py ''Central Public Information Officer''),
     (py ''address'',
        py ''Department of Animal Husbandry and Dairying, Krishi Bhawan, New Delhi - 110001''),
     (py ''parent_ministry'', py ''Ministry of Fisheries, Animal Husbandry and Dairying''),
     (py ''fee_category'', py ''central''),
     (py ''appellate_authority'', py ''First Appellate Authority, DAHD''),
     (py ''second_appeal'', py ''Central Information Commission, New Delhi'')]"

definition AGENCY_DIRECTORY :: "(pystr \<times> (pystr \<times> pystr) list) list" where
  "AGENCY_DIRECTORY =
    [(py ''awbi'', agency_awbi),
     (py ''fssai'', agency_fssai),
     (py ''cpcb'', agency_cpcb),
     (py ''dahd'', agency_dahd),
     (py ''nlm'', agency_nlm),
     (py ''rgm'', agency_rgm)]"


section \<open>The application and its derived values\<close>

record RTIApplication =
  agency_code :: pystr
  questions :: "pystr list"
  applicant_name :: pystr
  applicant_address :: pystr
  applicant_phone :: "pystr option"
  applicant_email :: "pystr option"
  is_bpl :: bool
  bpl_certificate_number :: "pystr option"
  language :: pystr
  state :: "pystr option"
  district :: "pystr option"
  subject :: pystr
  filing_date :: "datetime option"
  custom_pio_name :: "pystr option"
  custom_pio_address :: "pystr option"
  generated_text :: pystr

text \<open>\<^verbatim>\<open>__post_init__\<close>: an application built without a filing date gets the current time.\<close>

definition post_init :: "datetime \<Rightarrow> RTIApplication \<Rightarrow> RTIApplication" where
  "post_init now app =
     (case filing_date app of None \<Rightarrow> app\<lparr>filing_date := Some now\<rparr> | Some _ \<Rightarrow> app)"

text \<open>\<^verbatim>\<open>self.state.lower().replace(" ", "_")\<close>, the key looked up in \<open>FEES\<close>.\<close>

definition state_key :: "pystr \<Rightarrow> pystr" where
  "state_key s = replace_char 32 95 (lower s)"

text \<open>The last two lines of \<^verbatim>\<open>fee_amount\<close>: the fee of the agency's category.\<close>

definition category_fee :: "pystr \<Rightarrow> int" where
  "category_fee code =
     (let agency = dict_get AGENCY_DIRECTORY code []
      in dict_get FEES (dict_get agency (py ''fee_category'') (py ''central'')) 10)"

definition fee_amount :: "RTIApplication \<Rightarrow> int" where
  "fee_amount app =
     (if is_bpl app then 0
      else case state app of
          None \<Rightarrow> category_fee (agency_code app)
        | Some s \<Rightarrow>
            if s = [] then category_fee (agency_code app)
            else (case map_of FEES (state_key s) of
                Some fee \<Rightarrow> fee
              | None \<Rightarrow> category_fee (agency_code app)))"

text \<open>
  The deadline properties. \<^verbatim>\<open>None + timedelta\<close> raises \<^verbatim>\<open>TypeError\<close>; it is kept as a
  branch although \<open>post_init\<close> rules it out for an application as constructed.
\<close>

definition response_deadline :: "RTIApplication \<Rightarrow> error + datetime" where
  "response_deadline app =
     (case filing_date app of None \<Rightarrow> Inl TypeError | Some d \<Rightarrow> add_days d 30)"

definition first_appeal_deadline :: "RTIApplication \<Rightarrow> error + datetime" where
  "first_appeal_deadline app =
     (case response_deadline app of Inl e \<Rightarrow> Inl e | Inr r \<Rightarrow> add_days r 30)"

definition second_appeal_deadline :: "RTIApplication \<Rightarrow> error + datetime" where
  "second_appeal_deadline app =
     (case first_appeal_deadline app of Inl e \<Rightarrow> Inl e | Inr r \<Rightarrow> add_days r 90)"

text \<open>Year, month and day of a datetime, as the attributes \<^verbatim>\<open>dt.year, dt.month, dt.day\<close>.\<close>

definition ymd :: "datetime \<Rightarrow> int \<times> int \<times> int" where
  "ymd d = ord2ymd (ordinal d)"

text \<open>
  The application of tests/test_rti.py (\<^verbatim>\<open>TestRTIApplication\<close>): agency \<^verbatim>\<open>awbi\<close>, one
  question, every optional field at its default, filed on 2026-01-01.
\<close>

definition test_application :: RTIApplication where
  "test_application =
     \<lparr>agency_code = py ''awbi'', questions = [py ''Test''], applicant_name = py ''Test'',
      applicant_address = py ''Test'', applicant_phone = None, applicant_email = None,
      is_bpl = False, bpl_certificate_number = None, language = py ''english'', state = None,
      district = None, subject = [], filing_date = Some (mk_date 2026 1 1),
      custom_pio_name = None, custom_pio_address = None, generated_text = []\<rparr>"

section \<open>Template questions (rti_generator.py)\<close>





section \<open>The tracker (rti_tracker.py)\<close>

datatype RTIStatus =
    DRAFTED | FILED | ACKNOWLEDGED | TRANSFERRED | RESPONSE_RECEIVED | PARTIAL_RESPONSE
  | DENIED | NO_RESPONSE | FIRST_APPEAL_FILED | FIRST_APPEAL_DECIDED | SECOND_APPEAL_FILED
  | SECOND_APPEAL_DECIDED | COMPLAINT_FILED | CLOSED

fun status_value :: "RTIStatus \<Rightarrow> pystr" where
  "status_value DRAFTED = py ''drafted''"
| "status_value FILED = py ''filed''"
| "status_value ACKNOWLEDGED = py ''acknowledged''"
| "status_value TRANSFERRED = py ''transferred''"
| "status_value RESPONSE_RECEIVED = py ''response_received''"
| "status_value PARTIAL_RESPONSE = py ''partial_response''"
| "status_value DENIED = py ''denied''"
| "status_value NO_RESPONSE = py ''no_response''"
| "status_value FIRST_APPEAL_FILED = py ''first_appeal_filed''"
| "status_value FIRST_APPEAL_DECIDED = py ''first_appeal_decided''"
| "status_value SECOND_APPEAL_FILED = py ''second_appeal_filed''"
| "status_value SECOND_APPEAL_DECIDED = py ''second_appeal_decided''"
| "status_value COMPLAINT_FILED = py ''complaint_filed''"
| "status_value CLOSED = py ''closed''"

text \<open>
  A row of the table \<^verbatim>\<open>rti_records\<close>. The columns keep their names behind the prefix
  \<open>r_\<close> (many are attributes of \<open>RTIApplication\<close> too). A nullable column is an
  \<open>option\<close>; the columns that \<^verbatim>\<open>add_rti\<close> or a column default always fills are not.
  \<open>r_questions_json\<close> and \<open>r_documents_received\<close> hold the list of strings whose JSON text
  the column stores (\<^verbatim>\<open>json.loads\<close> gives back the list \<^verbatim>\<open>json.dumps\<close> was given).
\<close>

record RTIRecord =
  r_id :: int
  r_reference_number :: "pystr option"
  r_agency_code :: pystr
  r_agency_name :: pystr
  r_pio_name :: "pystr option"
  r_pio_address :: "pystr option"
  r_applicant_name :: pystr
  r_subject :: pystr
  r_questions_json :: "pystr list"
  r_full_text :: "pystr option"
  r_state :: "pystr option"
  r_district :: "pystr option"
  r_filing_date :: datetime
  r_fee_amount :: int
  r_fee_mode :: "pystr option"
  r_fee_receipt :: "pystr option"
  r_status :: RTIStatus
  r_is_bpl :: bool
  r_acknowledgment_date :: "datetime option"
  r_response_date :: "datetime option"
  r_transfer_date :: "datetime option"
  r_transferred_to :: "pystr option"
  r_response_deadline :: datetime
  r_first_appeal_deadline :: "datetime option"
  r_second_appeal_deadline :: "datetime option"
  r_first_appeal_date :: "datetime option"
  r_first_appeal_authority :: "pystr option"
  r_first_appeal_decision_date :: "datetime option"
  r_first_appeal_outcome :: "pystr option"
  r_second_appeal_date :: "datetime option"
  r_second_appeal_authority :: "pystr option"
  r_second_appeal_decision_date :: "datetime option"
  r_second_appeal_outcome :: "pystr option"
  r_notes :: "pystr option"
  r_response_summary :: "pystr option"
  r_documents_received :: "pystr list option"
  r_created_at :: datetime
  r_updated_at :: datetime

text \<open>
  The database is the list of its rows, in the order they were inserted. An operation
  reads the clock of the machine: \<open>now\<close> is what \<^verbatim>\<open>datetime.now()\<close> returns during the
  call and \<open>utcnow\<close> what \<^verbatim>\<open>datetime.utcnow()\<close> returns (the few readings one call makes
  lie microseconds apart and are one value here; two calls have two clocks).
\<close>

type_synonym db = "RTIRecord list"

record clock =
  now :: datetime
  utcnow :: datetime

text \<open>\<^verbatim>\<open>session.get(RTIRecord, record_id)\<close>: the row with that primary key, or \<^verbatim>\<open>None\<close>.\<close>

definition session_get :: "db \<Rightarrow> int \<Rightarrow> RTIRecord option" where
  "session_get rows record_id = find (\<lambda>r. r_id r = record_id) rows"

text \<open>\<^verbatim>\<open>session.commit()\<close> after changing the attributes of a row that was read.\<close>

definition commit :: "db \<Rightarrow> RTIRecord \<Rightarrow> db" where
  "commit rows record = map (\<lambda>r. if r_id r = r_id record then record else r) rows"

text \<open>The key SQLite gives a new row: one more than the largest in the table.\<close>

definition next_id :: "db \<Rightarrow> int" where
  "next_id rows = fold max (map r_id rows) 0 + 1"

text \<open>A \<^verbatim>\<open>datetime\<close> object is true; \<^verbatim>\<open>None\<close> is not.\<close>

fun truthy_datetime :: "datetime option \<Rightarrow> bool" where
  "truthy_datetime None = False"
| "truthy_datetime (Some d) = True"

text \<open>
  \<^verbatim>\<open>add_rti\<close> (called without extra keyword arguments). \<open>filing_date'\<close> is the
  parameter \<^verbatim>\<open>filing_date\<close> after the first two lines have rebound it, the value the
  status is then chosen by. The column \<^verbatim>\<open>reference_number\<close> is unique: a second row
  with the same number fails at the commit.
\<close>

definition add_rti ::
  "clock \<Rightarrow> pystr \<Rightarrow> pystr \<Rightarrow> pystr \<Rightarrow> pystr \<Rightarrow> pystr list \<Rightarrow> datetime option \<Rightarrow> int \<Rightarrow>
   pystr option \<Rightarrow> pystr option \<Rightarrow> pystr option \<Rightarrow> pystr option \<Rightarrow> db \<Rightarrow> error + (int \<times> db)" where
  "add_rti clk agency_code' agency_name applicant_name' subject' questions' filing_date0
     fee_amount' state' district' full_text reference_number rows =
     (let filing_date' = (case filing_date0 of None \<Rightarrow> now clk | Some d \<Rightarrow> d)
      in case add_days filing_date' 30 of
           Inl e \<Rightarrow> Inl e
         | Inr response_deadline' \<Rightarrow>
             (let record =
                \<lparr>r_id = next_id rows,
                 r_reference_number = reference_number,
                 r_agency_code = agency_code',
                 r_agency_name = agency_name,
                 r_pio_name = None,
                 r_pio_address = None,
                 r_applicant_name = applicant_name',
                 r_subject = subject',
                 r_questions_json = questions',
                 r_full_text = full_text,
                 r_state = state',
                 r_district = district',
                 r_filing_date = filing_date',
                 r_fee_amount = fee_amount',
                 r_fee_mode = None,
                 r_fee_receipt = None,
                 r_status = (if truthy_datetime (Some filing_date') then FILED else DRAFTED),
                 r_is_bpl = False,
                 r_acknowledgment_date = None,
                 r_response_date = None,
                 r_transfer_date = None,
                 r_transferred_to = None,
                 r_response_deadline = response_deadline',
                 r_first_appeal_deadline = None,
                 r_second_appeal_deadline = None,
                 r_first_appeal_date = None,
                 r_first_appeal_authority = None,
                 r_first_appeal_decision_date = None,
                 r_first_appeal_outcome = None,
                 r_second_appeal_date = None,
                 r_second_appeal_authority = None,
                 r_second_appeal_decision_date = None,
                 r_second_appeal_outcome = None,
                 r_notes = None,
                 r_response_summary = None,
                 r_documents_received = None,
                 r_created_at = utcnow clk,
                 r_updated_at = utcnow clk\<rparr>
              in if reference_number \<noteq> None \<and>
                    reference_number \<in> set (map r_reference_number rows)
                 then Inl IntegrityError
                 else Inr (r_id record, rows @ [record])))"

text \<open>
  The line a mutator appends to the notes:
  \<^verbatim>\<open>f"{existing}\n[{timestamp}] {label}{notes}".strip()\<close> with
  \<^verbatim>\<open>existing = record.notes or ""\<close> and the timestamp \<^verbatim>\<open>%Y-%m-%d %H:%M\<close> of \<^verbatim>\<open>now\<close>.
\<close>

definition append_note :: "clock \<Rightarrow> pystr option \<Rightarrow> pystr \<Rightarrow> pystr \<Rightarrow> pystr" where
  "append_note clk existing label note =
     strip (or_else existing [] @ [10] @ py ''['' @ strftime_Ymd_HM (now clk) @ py ''] '' @
            label @ note)"

text \<open>The block \<^verbatim>\<open>if notes: ...\<close> of the three mutators that take a note.\<close>

definition with_note :: "clock \<Rightarrow> pystr \<Rightarrow> pystr option \<Rightarrow> RTIRecord \<Rightarrow> RTIRecord" where
  "with_note clk label notes record =
     (case notes of
        None \<Rightarrow> record
      | Some n \<Rightarrow>
          if n \<noteq> [] then record\<lparr>r_notes := Some (append_note clk (r_notes record) label n)\<rparr>
          else record)"

definition update_status ::
  "clock \<Rightarrow> int \<Rightarrow> RTIStatus \<Rightarrow> pystr option \<Rightarrow> pystr option \<Rightarrow> db \<Rightarrow> error + (bool \<times> db)" where
  "update_status clk record_id status notes response_summary rows =
     (case session_get rows record_id of
        None \<Rightarrow> Inr (False, rows)
      | Some record0 \<Rightarrow>
          (let record1 = record0\<lparr>r_status := status, r_updated_at := utcnow clk\<rparr>;
               record2 = with_note clk [] notes record1;
               record3 = (if truthy response_summary
                          then record2\<lparr>r_response_summary := response_summary\<rparr>
                          else record2);
               record4 = (if status = RESPONSE_RECEIVED
                          then record3\<lparr>r_response_date := Some (now clk)\<rparr>
                          else record3)
           in Inr (True, commit rows record4)))"

definition mark_response_received ::
  "clock \<Rightarrow> int \<Rightarrow> pystr \<Rightarrow> pystr list option \<Rightarrow> datetime option \<Rightarrow> db \<Rightarrow> error + (bool \<times> db)"
  where
  "mark_response_received clk record_id response_summary documents response_date rows =
     (case session_get rows record_id of
        None \<Rightarrow> Inr (False, rows)
      | Some record0 \<Rightarrow>
          (let record1 = record0
                 \<lparr>r_status := RESPONSE_RECEIVED,
                  r_response_date :=
                    Some (case response_date of None \<Rightarrow> now clk | Some d \<Rightarrow> d),
                  r_response_summary := Some response_summary\<rparr>;
               record2 = (case documents of
                   None \<Rightarrow> record1
                 | Some ds \<Rightarrow>
                     if ds \<noteq> [] then record1\<lparr>r_documents_received := Some ds\<rparr> else record1);
               record3 = record2\<lparr>r_updated_at := utcnow clk\<rparr>
           in Inr (True, commit rows record3)))"

definition file_first_appeal ::
  "clock \<Rightarrow> int \<Rightarrow> pystr \<Rightarrow> datetime option \<Rightarrow> pystr option \<Rightarrow> db \<Rightarrow> error + (bool \<times> db)" where
  "file_first_appeal clk record_id appeal_authority appeal_date notes rows =
     (case session_get rows record_id of
        None \<Rightarrow> Inr (False, rows)
      | Some record0 \<Rightarrow>
          (let first_appeal_date = (case appeal_date of None \<Rightarrow> now clk | Some d \<Rightarrow> d)
           in case add_days first_appeal_date 30 of
                Inl e \<Rightarrow> Inl e
              | Inr deadline \<Rightarrow>
                  (let record1 = record0
                         \<lparr>r_status := FIRST_APPEAL_FILED,
                          r_first_appeal_date := Some first_appeal_date,
                          r_first_appeal_authority := Some appeal_authority,
                          r_first_appeal_deadline := Some deadline\<rparr>;
                       record2 = with_note clk (py ''First appeal: '') notes record1;
                       record3 = record2\<lparr>r_updated_at := utcnow clk\<rparr>
                   in Inr (True, commit rows record3))))"

text \<open>The default of the parameter \<^verbatim>\<open>commission\<close>.\<close>

definition DEFAULT_COMMISSION :: pystr where
  "DEFAULT_COMMISSION = py ''Central Information Commission''"

definition file_second_appeal ::
  "clock \<Rightarrow> int \<Rightarrow> datetime option \<Rightarrow> pystr \<Rightarrow> pystr option \<Rightarrow> db \<Rightarrow> error + (bool \<times> db)" where
  "file_second_appeal clk record_id appeal_date commission notes rows =
     (case session_get rows record_id of
        None \<Rightarrow> Inr (False, rows)
      | Some record0 \<Rightarrow>
          (let second_appeal_date = (case appeal_date of None \<Rightarrow> now clk | Some d \<Rightarrow> d)
           in case add_days second_appeal_date 90 of
                Inl e \<Rightarrow> Inl e
              | Inr deadline \<Rightarrow>
                  (let record1 = record0
                         \<lparr>r_status := SECOND_APPEAL_FILED,
                          r_second_appeal_date := Some second_appeal_date,
                          r_second_appeal_authority := Some commission,
                          r_second_appeal_deadline := Some deadline\<rparr>;
                       record2 = with_note clk (py ''Second appeal: '') notes record1;
                       record3 = record2\<lparr>r_updated_at := utcnow clk\<rparr>
                   in Inr (True, commit rows record3))))"

text \<open>The dictionary \<^verbatim>\<open>_record_to_dict\<close> builds, its keys behind the prefix \<open>d_\<close>.\<close>

record rti_dict =
  d_id :: int
  d_reference_number :: "pystr option"
  d_agency_code :: pystr
  d_agency_name :: pystr
  d_applicant_name :: pystr
  d_subject :: pystr
  d_questions :: "pystr list"
  d_state :: "pystr option"
  d_district :: "pystr option"
  d_filing_date :: "pystr option"
  d_fee_amount :: int
  d_status :: "pystr option"
  d_response_deadline :: "pystr option"
  d_response_date :: "pystr option"
  d_response_summary :: "pystr option"
  d_first_appeal_date :: "pystr option"
  d_first_appeal_deadline :: "pystr option"
  d_second_appeal_date :: "pystr option"
  d_notes :: "pystr option"
  d_days_since_filing :: "int option"
  d_is_overdue :: bool

text \<open>\<^verbatim>\<open>(a - b).days\<close>: whole days, rounded down.\<close>

definition time_of_day :: "datetime \<Rightarrow> int" where
  "time_of_day d = ((hour d * 60 + minute d) * 60 + second d) * 1000000 + microsecond d"

definition days_between :: "datetime \<Rightarrow> datetime \<Rightarrow> int" where
  "days_between a b =
     ordinal a - ordinal b - (if time_of_day a < time_of_day b then 1 else 0)"

definition overdue_status :: "RTIStatus \<Rightarrow> bool" where
  "overdue_status s = (s = FILED \<or> s = ACKNOWLEDGED)"

definition record_to_dict :: "clock \<Rightarrow> RTIRecord \<Rightarrow> rti_dict" where
  "record_to_dict clk record =
     \<lparr>d_id = r_id record,
      d_reference_number = r_reference_number record,
      d_agency_code = r_agency_code record,
      d_agency_name = r_agency_name record,
      d_applicant_name = r_applicant_name record,
      d_subject = r_subject record,
      d_questions = r_questions_json record,
      d_state = r_state record,
      d_district = r_district record,
      d_filing_date = Some (isoformat (r_filing_date record)),
      d_fee_amount = r_fee_amount record,
      d_status = Some (status_value (r_status record)),
      d_response_deadline = Some (isoformat (r_response_deadline record)),
      d_response_date = map_option isoformat (r_response_date record),
      d_response_summary = r_response_summary record,
      d_first_appeal_date = map_option isoformat (r_first_appeal_date record),
      d_first_appeal_deadline = map_option isoformat (r_first_appeal_deadline record),
      d_second_appeal_date = map_option isoformat (r_second_appeal_date record),
      d_notes = r_notes record,
      d_days_since_filing = Some (days_between (now clk) (r_filing_date record)),
      d_is_overdue =
        (dt_less (r_response_deadline record) (now clk) \<and> overdue_status (r_status record))\<rparr>"

text \<open>
  \<^verbatim>\<open>get_overdue\<close>: the rows the query selects, then their dictionaries. SQLite keeps a
  \<^verbatim>\<open>DateTime\<close> as zero-padded text, so its \<^verbatim>\<open><\<close> is the order of the datetimes.
\<close>

definition overdue_rows :: "clock \<Rightarrow> db \<Rightarrow> RTIRecord list" where
  "overdue_rows clk rows =
     filter (\<lambda>r. dt_less (r_response_deadline r) (now clk) \<and> overdue_status (r_status r)) rows"

definition get_overdue :: "clock \<Rightarrow> db \<Rightarrow> rti_dict list" where
  "get_overdue clk rows = map (record_to_dict clk) (overdue_rows clk rows)"

definition get_by_id :: "clock \<Rightarrow> db \<Rightarrow> int \<Rightarrow> rti_dict option" where
  "get_by_id clk rows record_id =
     (case session_get rows record_id of
        None \<Rightarrow> None
      | Some record \<Rightarrow> Some (record_to_dict clk record))"

text \<open>
  Reading results: the row with key \<open>i\<close> in the database a call left (none when the call
  raised), and a second call run on the database the first one left.
\<close>

definition row_after :: "error + ('a \<times> db) \<Rightarrow> int \<Rightarrow> RTIRecord option" where
  "row_after res i = (case res of Inl e \<Rightarrow> None | Inr (x, rows) \<Rightarrow> session_get rows i)"

definition and_then ::
  "error + ('a \<times> db) \<Rightarrow> (db \<Rightarrow> error + ('b \<times> db)) \<Rightarrow> error + ('b \<times> db)" where
  "and_then res f = (case res of Inl e \<Rightarrow> Inl e | Inr (x, rows) \<Rightarrow> f rows)"

text \<open>
  The clock of a run of the tests, 2026-11-03 09:05 local time (03:35 UTC), and the same
  clock a day later.
\<close>

definition test_clock :: clock where
  "test_clock =
     \<lparr>now = \<lparr>ordinal = 739923, hour = 9, minute = 5, second = 0, microsecond = 0\<rparr>,
      utcnow = \<lparr>ordinal = 739923, hour = 3, minute = 35, second = 0, microsecond = 0\<rparr>\<rparr>"

definition next_day_clock :: clock where
  "next_day_clock =
     \<lparr>now = \<lparr>ordinal = 739924, hour = 9, minute = 5, second = 0, microsecond = 0\<rparr>,
      utcnow = \<lparr>ordinal = 739924, hour = 3, minute = 35, second = 0, microsecond = 0\<rparr>\<rparr>"

text \<open>
  The databases of tests/test_rti.py. \<open>rows_of\<close> reads the database a run left (empty
  when the run raised). \<open>test_db\<close> is the database after the one \<^verbatim>\<open>add_rti\<close> of
  \<^verbatim>\<open>test_file_first_appeal\<close>; \<open>overdue_test_db\<close> is that of \<^verbatim>\<open>test_get_overdue\<close>, a
  request filed 35 days ago and one filed now, with a third that was filed 35 days ago
  and has been answered.
\<close>

definition rows_of :: "error + ('a \<times> db) \<Rightarrow> db" where
  "rows_of res = (case res of Inl e \<Rightarrow> [] | Inr (x, rows) \<Rightarrow> rows)"

definition test_db :: db where
  "test_db =
     rows_of (add_rti test_clock (py ''awbi'') (py ''AWBI'') (py ''Test'') (py ''Test'')
       [py ''Q1''] None 10 None None None None [])"

definition old_date :: datetime where
  "old_date = \<lparr>ordinal = 739888, hour = 9, minute = 5, second = 0, microsecond = 0\<rparr>"

definition overdue_test_db :: db where
  "overdue_test_db =
     rows_of
       (and_then
         (and_then
           (and_then
             (add_rti test_clock (py ''awbi'') (py ''AWBI'') (py ''Test'') (py ''Overdue RTI'')
               [py ''Q1''] (Some old_date) 10 None None None None [])
             (add_rti test_clock (py ''fssai'') (py ''FSSAI'') (py ''Test'') (py ''Recent RTI'')
               [py ''Q1''] (Some (now test_clock)) 10 None None None None))
           (add_rti test_clock (py ''cpcb'') (py ''CPCB'') (py ''Test'') (py ''Answered RTI'')
             [py ''Q1''] (Some old_date) 10 None None None None))
         (mark_response_received test_clock 3 (py ''Reply received'') None None))"

text \<open>An appeal filed on 2027-01-19, 77 days after the clock of the tests.\<close>

definition late_appeal_date :: datetime where
  "late_appeal_date = \<lparr>ordinal = 740000, hour = 10, minute = 0, second = 0, microsecond = 0\<rparr>"

section \<open>The renderer (rti_generator.py)\<close>

text \<open>
  The dictionary \<^verbatim>\<open>context\<close> that \<^verbatim>\<open>generate\<close> hands to the renderers, its keys behind the
  prefix \<open>ctx_\<close>.
\<close>

record rti_context =
  ctx_app :: RTIApplication
  ctx_agency :: "(pystr \<times> pystr) list"
  ctx_fee :: int
  ctx_date :: pystr
  ctx_date_hi :: pystr
  ctx_response_deadline :: pystr
  ctx_first_appeal_deadline :: pystr

definition months_hi :: "(int \<times> pystr) list" where
  "months_hi =
    [(1, [2332, 2344, 2357, 2352, 2368]),
     (2, [2347, 2352, 2357, 2352, 2368]),
     (3, [2350, 2366, 2352, 2381, 2330]),
     (4, [2309, 2346, 2381, 2352, 2376, 2354]),
     (5, [2350, 2312]),
     (6, [2332, 2370, 2344]),
     (7, [2332, 2369, 2354, 2366, 2312]),
     (8, [2309, 2327, 2360, 2381, 2340]),
     (9, [2360, 2367, 2340, 2306, 2348, 2352]),
     (10, [2309, 2325, 2381, 2335, 2370, 2348, 2352]),
     (11, [2344, 2357, 2306, 2348, 2352]),
     (12, [2342, 2367, 2360, 2306, 2348, 2352])]"

text \<open>\<^verbatim>\<open>f"{dt.day} {months_hi[dt.month]} {dt.year}"\<close>; every month of a datetime is a key.\<close>

definition format_date_hindi :: "datetime \<Rightarrow> pystr" where
  "format_date_hindi dt =
     str_int (day dt) @ py '' '' @ dict_get months_hi (month dt) [] @ py '' '' @ str_int (year dt)"

definition number_words :: "(int \<times> pystr) list" where
  "number_words =
    [(0, py ''Zero''),
     (2, py ''Two''),
     (5, py ''Five''),
     (10, py ''Ten''),
     (20, py ''Twenty''),
     (50, py ''Fifty''),
     (100, py ''One Hundred'')]"

definition number_to_words :: "int \<Rightarrow> pystr" where
  "number_to_words n = dict_get number_words n (str_int n)"

text \<open>The two lines a numbered question adds, for \<^verbatim>\<open>enumerate(app.questions, 1)\<close>.\<close>

definition question_lines :: "pystr list \<Rightarrow> pystr list" where
  "question_lines qs =
     concat (map (\<lambda>(i, question). [digits i @ py ''. '' @ question, []]) (enumerate 1 qs))"

text \<open>\<^verbatim>\<open>if value: lines.append(f"{label}{value}")\<close>.\<close>

definition optional_line :: "pystr \<Rightarrow> pystr option \<Rightarrow> pystr list" where
  "optional_line label v =
     (case v of None \<Rightarrow> [] | Some s \<Rightarrow> if s = [] then [] else [label @ s])"

definition generate_english :: "rti_context \<Rightarrow> pystr" where
  "generate_english ctx =
     (let app = ctx_app ctx;
          agency = ctx_agency ctx;
          pio_address = or_else (custom_pio_address app) (dict_get agency (py ''address'') (py ''[ADDRESS]''));
          pio_designation = dict_get agency (py ''pio_designation'') (py ''Public Information Officer'');
          lines1 =
            [py ''APPLICATION UNDER SECTION 6(1) OF THE RIGHT TO INFORMATION ACT, 2005'',
             [],
             py ''Date: '' @ ctx_date ctx,
             [],
             py ''To,'',
             py ''The '' @ pio_designation @ py '','',
             dict_get agency (py ''name'') (py ''[AGENCY NAME]'') @ py '','',
             pio_address,
             [],
             py ''Subject: '' @ (if subject app = [] then py ''Request for Information under RTI Act, 2005''
               else subject app),
             [],
             py ''Respected Sir/Madam,'',
             [],
             py ''I, the undersigned, am a citizen of India and wish to seek information'',
             py ''under Section 6(1) of the Right to Information Act, 2005. The details'',
             py ''of the information sought are as follows:'',
             []];
          lines2 = lines1 @ question_lines (questions app);
          fee_text =
            (if is_bpl app
             then py ''I belong to Below Poverty Line (BPL) category and am exempt from payment of fee under Section 7(5) of the RTI Act, 2005. My BPL Certificate Number is: ''
                  @ or_else (bpl_certificate_number app) (py ''[BPL NUMBER]'') @ py ''.''
             else py ''I am enclosing an Indian Postal Order / Demand Draft / Court Fee Stamp of Rs. '' @ str_int
                  (ctx_fee ctx) @ py ''/- (Rupees '' @ number_to_words (ctx_fee ctx) @
                  py '' only) as the prescribed fee under the RTI Act, 2005.'');
          lines3 = lines2 @
            [fee_text,
             [],
             py ''I request that the above information be provided within 30 days as'',
             py ''stipulated under Section 7(1) of the RTI Act, 2005.'',
             [],
             py ''If the information sought or any part thereof concerns the life or'',
             py ''liberty of a person, it shall be provided within 48 hours of receipt'',
             py ''of this request as per Section 7(1) of the Act.'',
             [],
             py ''If this application is transferred to another public authority under'',
             py ''Section 6(3), I request to be informed of the same.'',
             [],
             py ''Yours faithfully,'',
             [],
             py ''Name: '' @ applicant_name app,
             py ''Address: '' @ applicant_address app];
          lines4 = lines3 @ optional_line (py ''Phone: '') (applicant_phone app);
          lines5 = lines4 @ optional_line (py ''Email: '') (applicant_email app);
          lines6 = lines5 @
            [[],
             py ''---'',
             py ''NOTE: Response deadline under Section 7(1): '' @ ctx_response_deadline ctx,
             py ''First Appeal deadline under Section 19(1): '' @ ctx_first_appeal_deadline ctx,
             py ''Appellate Authority: '' @ dict_get agency (py ''appellate_authority'')
               (py ''First Appellate Authority''),
             py ''Second Appeal: '' @ dict_get agency (py ''second_appeal'')
               (py ''Central/State Information Commission'')]
      in join [10] lines6)"

definition generate_hindi :: "rti_context \<Rightarrow> pystr" where
  "generate_hindi ctx =
     (let app = ctx_app ctx;
          agency = ctx_agency ctx;
          pio_address = or_else (custom_pio_address app) (dict_get agency (py ''address'') ([91, 2346, 2340, 2366, 93]));
          agency_name_hi = dict_get agency (py ''name_hi'') (dict_get agency (py ''name'') ([91, 2357, 2367, 2349, 2366,
            2327, 32, 2325, 2366, 32, 2344, 2366, 2350, 93]));
          lines1 =
            [[2360, 2370, 2330, 2344, 2366, 32, 2325, 2366, 32, 2309, 2343, 2367, 2325, 2366, 2352, 32, 2309,
               2343, 2367, 2344, 2367, 2351, 2350] @ py '', 2005 '' @ [2325, 2368, 32, 2343,
               2366, 2352, 2366] @ py '' 6(1) '' @ [2325, 2375, 32, 2340, 2361, 2340, 32, 2310,
               2357, 2375, 2342, 2344],
             [],
             [2342, 2367, 2344, 2366, 2306, 2325, 58, 32] @ ctx_date_hi ctx,
             [],
             [2360, 2375, 2357, 2366, 32, 2350, 2375, 2306, 44],
             [2332, 2344, 32, 2360, 2370, 2330, 2344, 2366, 32, 2309, 2343, 2367, 2325, 2366, 2352, 2368, 44],
             agency_name_hi @ py '','',
             pio_address,
             [],
             [2357, 2367, 2359, 2351, 58, 32] @ (if subject app = [] then [2360, 2370, 2330, 2344, 2366, 32,
               2325, 2366, 32, 2309, 2343, 2367, 2325, 2366, 2352, 32, 2309, 2343, 2367, 2344,
               2367, 2351, 2350] @ py '', 2005 '' @ [2325, 2375, 32, 2340, 2361, 2340, 32, 2360,
               2370, 2330, 2344, 2366, 32, 2346, 2381, 2352, 2366, 2346, 2381, 2340, 32, 2325,
               2352, 2344, 2375, 32, 2325, 2366, 32, 2310, 2357, 2375, 2342, 2344] else subject
               app),
             [],
             [2350, 2361, 2379, 2342, 2351, 47, 2350, 2361, 2379, 2342, 2351, 2366, 44],
             [],
             [2350, 2376, 2306, 44, 32, 2344, 2368, 2330, 2375, 32, 2361, 2360, 2381, 2340, 2366, 2325, 2381,
               2359, 2352, 2325, 2352, 2381, 2340, 2366, 44, 32, 2349, 2366, 2352, 2340, 32,
               2325, 2366, 32, 2344, 2366, 2327, 2352, 2367, 2325, 32, 2361, 2370, 2306, 32,
               2324, 2352, 32, 2360, 2370, 2330, 2344, 2366, 32, 2325, 2366, 32, 2309, 2343,
               2367, 2325, 2366, 2352],
             [2309, 2343, 2367, 2344, 2367, 2351, 2350] @ py '', 2005 '' @ [2325, 2368, 32, 2343, 2366, 2352,
               2366] @ py '' 6(1) '' @ [2325, 2375, 32, 2340, 2361, 2340, 32, 2344, 2367, 2350,
               2381, 2344, 2354, 2367, 2326, 2367, 2340, 32, 2360, 2370, 2330, 2344, 2366, 32,
               2346, 2381, 2352, 2366, 2346, 2381, 2340, 32, 2325, 2352, 2344, 2366, 32, 2330,
               2366, 2361, 2340, 2366, 47, 2330, 2366, 2361, 2340, 2368, 32, 2361, 2370, 2306,
               58],
             []];
          lines2 = lines1 @ question_lines (questions app);
          lines3 = lines2 @
            (if is_bpl app
             then
                [[2350, 2376, 2306, 32, 2327, 2352, 2368, 2348, 2368, 32, 2352, 2375, 2326, 2366, 32, 2360, 2375,
                   32, 2344, 2368, 2330, 2375] @ py '' (BPL) '' @ [2325, 2368, 32, 2358, 2381,
                   2352, 2375, 2339, 2368, 32, 2350, 2375, 2306, 32, 2310, 2340, 2366, 47, 2310,
                   2340, 2368, 32, 2361, 2370, 2306, 32, 2324, 2352] @ py '' RTI '' @ [2309,
                   2343, 2367, 2344, 2367, 2351, 2350] @ py '', 2005'',
                 [2325, 2368, 32, 2343, 2366, 2352, 2366] @ py '' 7(5) '' @ [2325, 2375, 32, 2340, 2361, 2340, 32,
                   2358, 2369, 2354, 2381, 2325, 32, 2360, 2375, 32, 2350, 2369, 2325, 2381,
                   2340, 32, 2361, 2370, 2306, 2404],
                 py ''BPL '' @ [2346, 2381, 2352, 2350, 2366, 2339, 2346, 2340, 2381, 2352, 32, 2360, 2306, 2326,
                   2381, 2351, 2366, 58, 32] @ or_else (bpl_certificate_number app) (py ''[BPL ''
                   @ [2360, 2306, 2326, 2381, 2351, 2366, 93])]
             else
                [[2350, 2376, 2306] @ py '' RTI '' @ [2309, 2343, 2367, 2344, 2367, 2351, 2350] @ py '', 2005 '' @
                   [2325, 2375, 32, 2340, 2361, 2340, 32, 2344, 2367, 2352, 2381, 2343, 2366,
                   2352, 2367, 2340, 32, 2358, 2369, 2354, 2381, 2325, 32, 2325, 2375, 32, 2352,
                   2370, 2346, 32, 2350, 2375, 2306],
                 [8377] @ str_int (ctx_fee ctx) @ [47, 45, 32, 2325, 2366, 32, 2349, 2366, 2352, 2340, 2368, 2351,
                   32, 2346, 2379, 2360, 2381, 2335, 2354, 32, 2321, 2352, 2381, 2337, 2352, 32,
                   47, 32, 2337, 2367, 2350, 2366, 2306, 2337, 32, 2337, 2381, 2352, 2366, 2347,
                   2381, 2335, 32, 2360, 2306, 2354, 2327, 2381, 2344, 32, 2325, 2352, 32, 2352,
                   2361, 2366, 47, 2352, 2361, 2368, 32, 2361, 2370, 2306, 2404]]);
          lines4 = lines3 @
            [[],
             [2325, 2371, 2346, 2351, 2366, 32, 2313, 2346, 2352, 2379, 2325, 2381, 2340, 32, 2360, 2370,
               2330, 2344, 2366] @ py '' RTI '' @ [2309, 2343, 2367, 2344, 2367, 2351, 2350] @
               py '', 2005 '' @ [2325, 2368, 32, 2343, 2366, 2352, 2366] @ py '' 7(1) '' @ [2325,
               2375, 32, 2340, 2361, 2340],
             [2344, 2367, 2352, 2381, 2343, 2366, 2352, 2367, 2340] @ py '' 30 '' @ [2342, 2367, 2344, 2379,
               2306, 32, 2325, 2375, 32, 2349, 2368, 2340, 2352, 32, 2313, 2346, 2354, 2348,
               2381, 2343, 32, 2325, 2352, 2366, 2319, 2306, 2404],
             [],
             [2349, 2357, 2342, 2368, 2351, 47, 2349, 2357, 2342, 2368, 2351, 2366, 44],
             [],
             [2344, 2366, 2350, 58, 32] @ applicant_name app,
             [2346, 2340, 2366, 58, 32] @ applicant_address app];
          lines5 = lines4 @ optional_line ([2347, 2379, 2344, 58, 32]) (applicant_phone app);
          lines6 = lines5 @ optional_line ([2312, 2350, 2375, 2354, 58, 32]) (applicant_email app)
      in join [10] lines6)"

definition generate_bilingual :: "rti_context \<Rightarrow> pystr" where
  "generate_bilingual ctx =
     (let english = generate_english ctx;
          hindi = generate_hindi ctx
      in replicate 70 61 @
         [10] @ py ''ENGLISH VERSION / '' @ [2309, 2306, 2327, 2381, 2352, 2375, 2332, 2364, 2368, 32,
            2360, 2306, 2360, 2381, 2325, 2352, 2339, 10] @
         replicate 70 61 @
         [10, 10] @
         english @
         [10, 10] @
         replicate 70 61 @
         [10, 2361, 2367, 2306, 2342, 2368, 32, 2360, 2306, 2360, 2381, 2325, 2352, 2339] @
            py '' / HINDI VERSION'' @ [10] @
         replicate 70 61 @
         [10, 10] @
         hindi)"

text \<open>
  \<^verbatim>\<open>generate\<close>: the context is built key by key (\<^verbatim>\<open>None.strftime\<close> is an
  \<^verbatim>\<open>AttributeError\<close>, a deadline outside the calendar an \<^verbatim>\<open>OverflowError\<close>), the text is
  rendered in the language asked for and stored in \<^verbatim>\<open>generated_text\<close>. The result is the
  text and the application as the call leaves it.
\<close>

definition generate :: "RTIApplication \<Rightarrow> error + (pystr \<times> RTIApplication)" where
  "generate application =
     (let agency = dict_get AGENCY_DIRECTORY (agency_code application) [];
          fee = fee_amount application
      in case filing_date application of
           None \<Rightarrow> Inl AttributeError
         | Some filed \<Rightarrow>
             (case response_deadline application of
                Inl e \<Rightarrow> Inl e
              | Inr deadline1 \<Rightarrow>
                  (case first_appeal_deadline application of
                     Inl e \<Rightarrow> Inl e
                   | Inr deadline2 \<Rightarrow>
                       (let ctx =
                              \<lparr>ctx_app = application,
                               ctx_agency = agency,
                               ctx_fee = fee,
                               ctx_date = strftime_dmY filed,
                               ctx_date_hi = format_date_hindi filed,
                               ctx_response_deadline = strftime_dmY deadline1,
                               ctx_first_appeal_deadline = strftime_dmY deadline2\<rparr>;
                            rendered =
                              (if language application = py ''hindi'' then generate_hindi ctx
                               else if language application = py ''bilingual''
                                 then generate_bilingual ctx
                               else generate_english ctx)
                        in Inr (rendered, application\<lparr>generated_text := rendered\<rparr>)))))"

text \<open>
  The two labelled banners of the bilingual rendering, as the specification speaks of
  them: what stands before the English text, and what stands between it and the Hindi
  text.
\<close>

definition english_banner :: pystr where
  "english_banner =
     replicate 70 61 @ [10] @
     py ''ENGLISH VERSION / '' @ [2309, 2306, 2327, 2381, 2352, 2375, 2332, 2364, 2368, 32,
       2360, 2306, 2360, 2381, 2325, 2352, 2339] @ [10] @
     replicate 70 61 @ [10, 10]"

definition hindi_banner :: pystr where
  "hindi_banner =
     [10, 10] @ replicate 70 61 @ [10] @
     [2361, 2367, 2306, 2342, 2368, 32, 2360, 2306, 2360, 2381, 2325, 2352, 2339] @
     py '' / HINDI VERSION'' @ [10] @
     replicate 70 61 @ [10, 10]"

text \<open>The text a call of \<^verbatim>\<open>generate\<close> returns.\<close>

definition rendered_text :: "error + (pystr \<times> RTIApplication) \<Rightarrow> error + pystr" where
  "rendered_text res = (case res of Inl e \<Rightarrow> Inl e | Inr (t, app) \<Rightarrow> Inr t)"

section \<open>ASCII literals\<close>

lemma py_eq_iff [simp]: "py s = py t \<longleftrightarrow> s = t"
  by (simp add: py_def inj_map_eq_map inj_on_def)

lemma py_Nil [simp]: "py [] = []"
  by (simp add: py_def)

lemma py_eq_Nil [simp]: "py s = [] \<longleftrightarrow> s = []" "[] = py s \<longleftrightarrow> s = []"
  by (auto simp: py_def)

section \<open>Calendar facts\<close>

lemma add_days_add_days:
  "1 \<le> ordinal d \<Longrightarrow> 0 \<le> j \<Longrightarrow> 0 \<le> k \<Longrightarrow>
   (case add_days d j of Inl e \<Rightarrow> Inl e | Inr r \<Rightarrow> add_days r k) = add_days d (j + k)"
  by (auto simp: add_days_def)

lemmas mk_date_unfold =
  mk_date_def ymd2ord_def days_before_year_def days_before_month_def DAYS_BEFORE_MONTH_def
  is_leap_def

lemma mk_date_2026_01_01:
  "mk_date 2026 1 1 = \<lparr>ordinal = 739617, hour = 0, minute = 0, second = 0, microsecond = 0\<rparr>"
  by (simp add: mk_date_unfold)

lemma mk_date_2026_01_31:
  "mk_date 2026 1 31 = \<lparr>ordinal = 739647, hour = 0, minute = 0, second = 0, microsecond = 0\<rparr>"
  by (simp add: mk_date_unfold)

lemma mk_date_2026_03_02:
  "mk_date 2026 3 2 = \<lparr>ordinal = 739677, hour = 0, minute = 0, second = 0, microsecond = 0\<rparr>"
  by (simp add: mk_date_unfold)

lemma mk_date_2026_05_31:
  "mk_date 2026 5 31 = \<lparr>ordinal = 739767, hour = 0, minute = 0, second = 0, microsecond = 0\<rparr>"
  by (simp add: mk_date_unfold)

lemmas ord2ymd_unfold = ymd_def ord2ymd_def Let_def DAYS_BEFORE_MONTH_def DAYS_IN_MONTH_def

lemma ymd_2026_01_31: "ymd (mk_date 2026 1 31) = (2026, 1, 31)"
  by (simp add: mk_date_2026_01_31 ord2ymd_unfold)

lemma ymd_2026_03_02: "ymd (mk_date 2026 3 2) = (2026, 3, 2)"
  by (simp add: mk_date_2026_03_02 ord2ymd_unfold)

lemma ymd_2026_05_31: "ymd (mk_date 2026 5 31) = (2026, 5, 31)"
  by (simp add: mk_date_2026_05_31 ord2ymd_unfold)

lemma valid_2026_01_01: "valid_datetime (mk_date 2026 1 1)"
  by (simp add: valid_datetime_def MAXORDINAL_def mk_date_2026_01_01)

section \<open>The deadline chain\<close>

text \<open>
  Claim C2. For every filing date \<open>d\<close>, the deadlines an application computes at draft time
  are \<open>d\<close> plus 30, 60 and 150 days: the second and third are chained additions of 30 and
  90 days to the one before, and a chain that leaves the calendar raises exactly when the
  single addition does. Filed on 2026-01-01, the three deadlines are 2026-01-31,
  2026-03-02 and 2026-05-31 (day offsets, not calendar months).
\<close>

theorem deadline_chain:
  "filing_date app = Some d \<Longrightarrow> valid_datetime d \<Longrightarrow>
     response_deadline app = add_days d 30 \<and>
     first_appeal_deadline app = add_days d 60 \<and>
     second_appeal_deadline app = add_days d 150 \<and>
     (d = mk_date 2026 1 1 \<longrightarrow>
        response_deadline app = Inr (mk_date 2026 1 31) \<and>
        ymd (mk_date 2026 1 31) = (2026, 1, 31) \<and>
        first_appeal_deadline app = Inr (mk_date 2026 3 2) \<and>
        ymd (mk_date 2026 3 2) = (2026, 3, 2) \<and>
        second_appeal_deadline app = Inr (mk_date 2026 5 31) \<and>
        ymd (mk_date 2026 5 31) = (2026, 5, 31))"
proof -
  assume fd: "filing_date app = Some d" and v: "valid_datetime d"
  from v have pos: "1 \<le> ordinal d"
    by (simp add: valid_datetime_def)
  have r: "response_deadline app = add_days d 30"
    using fd by (simp add: response_deadline_def)
  have f: "first_appeal_deadline app = add_days d 60"
    using add_days_add_days [OF pos, of 30 30] by (simp add: first_appeal_deadline_def r)
  have s: "second_appeal_deadline app = add_days d 150"
    using add_days_add_days [OF pos, of 60 90] by (simp add: second_appeal_deadline_def f)
  have ex: "add_days (mk_date 2026 1 1) 30 = Inr (mk_date 2026 1 31)"
    "add_days (mk_date 2026 1 1) 60 = Inr (mk_date 2026 3 2)"
    "add_days (mk_date 2026 1 1) 150 = Inr (mk_date 2026 5 31)"
    by (simp_all add: add_days_def MAXORDINAL_def mk_date_2026_01_01 mk_date_2026_01_31
        mk_date_2026_03_02 mk_date_2026_05_31)
  show ?thesis
    using r f s ex ymd_2026_01_31 ymd_2026_03_02 ymd_2026_05_31 by simp
qed

theorem deadline_chain_witness:
  "filing_date test_application = Some (mk_date 2026 1 1) \<and>
   valid_datetime (mk_date 2026 1 1) \<and>
   response_deadline test_application = Inr (mk_date 2026 1 31) \<and>
   first_appeal_deadline test_application = Inr (mk_date 2026 3 2) \<and>
   second_appeal_deadline test_application = Inr (mk_date 2026 5 31)"
proof -
  have fd: "filing_date test_application = Some (mk_date 2026 1 1)"
    by (simp add: test_application_def)
  show ?thesis
    using deadline_chain [OF fd valid_2026_01_01] fd valid_2026_01_01 by blast
qed

section \<open>Fee resolution\<close>

lemmas state_key_unfold = state_key_def lower_def replace_char_def lower_char_def py_def


lemma state_key_empty [simp]: "state_key s = [] \<longleftrightarrow> s = []"
  by (simp add: state_key_def lower_def replace_char_def)

lemma FEES_keys_all_normal: "list_all (\<lambda>(k, v). state_key k = k) FEES"
  by (simp add: FEES_def state_key_unfold)

lemma FEES_keys_normal: "map_of FEES k = Some fee \<Longrightarrow> state_key k = k"
  using FEES_keys_all_normal map_of_SomeD [of FEES k fee] by (auto simp: list_all_iff)

lemma FEES_no_empty_key: "map_of FEES [] = None"
  by (simp add: FEES_def)

lemma FEES_central: "map_of FEES (py ''central'') = Some 10"
  by (simp add: FEES_def)

lemma FEES_gujarat: "map_of FEES (py ''gujarat'') = Some 20"
  by (simp add: FEES_def)



lemma state_key_Gujarat: "state_key (py ''Gujarat'') = py ''gujarat''"
  by (simp add: state_key_unfold)

lemma agency_fee_category:
  "map_of agency_awbi (py ''fee_category'') = Some (py ''central'')"
  "map_of agency_fssai (py ''fee_category'') = Some (py ''central'')"
  "map_of agency_cpcb (py ''fee_category'') = Some (py ''central'')"
  "map_of agency_dahd (py ''fee_category'') = Some (py ''central'')"
  "map_of agency_nlm (py ''fee_category'') = Some (py ''central'')"
  "map_of agency_rgm (py ''fee_category'') = Some (py ''central'')"
  by (simp_all add: agency_awbi_def agency_fssai_def agency_cpcb_def agency_dahd_def
      agency_nlm_def agency_rgm_def)

lemma AGENCY_DIRECTORY_range:
  "map_of AGENCY_DIRECTORY code = Some a \<Longrightarrow>
   a \<in> {agency_awbi, agency_fssai, agency_cpcb, agency_dahd, agency_nlm, agency_rgm}"
  by (auto simp: AGENCY_DIRECTORY_def split: if_splits)

lemma category_fee_10: "category_fee code = 10"
proof (cases "map_of AGENCY_DIRECTORY code")
  case None
  then show ?thesis
    by (simp add: category_fee_def dict_get_def FEES_central)
next
  case (Some a)
  from AGENCY_DIRECTORY_range [OF this]
  have "map_of a (py ''fee_category'') = Some (py ''central'')"
    using agency_fee_category by auto
  with Some show ?thesis
    by (simp add: category_fee_def dict_get_def FEES_central)
qed

lemma fee_amount_region:
  "\<not> is_bpl app \<Longrightarrow> state app = Some s \<Longrightarrow> s \<noteq> [] \<Longrightarrow> map_of FEES (state_key s) = Some fee \<Longrightarrow>
   fee_amount app = fee"
  by (simp add: fee_amount_def)

lemma fee_amount_fallback:
  "\<not> is_bpl app \<Longrightarrow> \<not> truthy (state app) \<or> (state app = Some s \<and> map_of FEES (state_key s) = None) \<Longrightarrow>
   fee_amount app = category_fee (agency_code app)"
  by (cases "state app") (auto simp: fee_amount_def)

text \<open>
  Claim C3. Fee resolution returns 0 whenever the BPL flag is set, whatever the agency and
  the state. Otherwise a state that is given (not \<^verbatim>\<open>None\<close>, not empty) and present in the
  fee table (its key found; a state written as a key of the table is its own key) yields
  that state's fee, before the agency's category is looked at: Gujarat is charged 20 where
  the category fee is 10. Otherwise the result is the fee of the agency's fee category,
  with \<^verbatim>\<open>central\<close> and 10 as the defaults of the two lookups; an unknown agency pays 10,
  and with no exemption and no state every agency of the directory yields 10.
\<close>

theorem fee_resolution:
  "(is_bpl app \<longrightarrow> fee_amount app = 0) \<and>
   (\<not> is_bpl app \<and> state app = Some s \<and> s \<noteq> [] \<and> map_of FEES (state_key s) = Some fee
      \<longrightarrow> fee_amount app = fee) \<and>
   (\<not> is_bpl app \<and> state app = Some s \<and> map_of FEES s = Some fee \<longrightarrow> fee_amount app = fee) \<and>
   (\<not> is_bpl app \<and> state app = Some (py ''gujarat'') \<longrightarrow>
      fee_amount app = 20 \<and> category_fee (agency_code app) = 10) \<and>
   (\<not> is_bpl app \<and>
      (\<not> truthy (state app) \<or> (state app = Some s \<and> map_of FEES (state_key s) = None))
      \<longrightarrow> fee_amount app = category_fee (agency_code app)) \<and>
   category_fee code = dict_get FEES (dict_get (dict_get AGENCY_DIRECTORY code [])
      (py ''fee_category'') (py ''central'')) 10 \<and>
   (map_of AGENCY_DIRECTORY code = None \<longrightarrow> category_fee code = 10) \<and>
   (\<forall>c \<in> fst ` set AGENCY_DIRECTORY.
      \<not> is_bpl app \<and> \<not> truthy (state app) \<and> agency_code app = c \<longrightarrow> fee_amount app = 10)"
proof -
  have a: "is_bpl app \<longrightarrow> fee_amount app = 0"
    by (simp add: fee_amount_def)
  have b: "\<not> is_bpl app \<and> state app = Some s \<and> s \<noteq> [] \<and> map_of FEES (state_key s) = Some fee
      \<longrightarrow> fee_amount app = fee"
    using fee_amount_region by blast
  have c: "\<not> is_bpl app \<and> state app = Some s \<and> map_of FEES s = Some fee \<longrightarrow> fee_amount app = fee"
  proof (intro impI, elim conjE)
    assume h: "\<not> is_bpl app" "state app = Some s" "map_of FEES s = Some fee"
    from h(3) have k: "state_key s = s"
      by (rule FEES_keys_normal)
    from h(3) have "s \<noteq> []"
      using FEES_no_empty_key by auto
    with h k show "fee_amount app = fee"
      using fee_amount_region [of app s fee] by simp
  qed
  have d: "\<not> is_bpl app \<and> state app = Some (py ''gujarat'') \<longrightarrow>
      fee_amount app = 20 \<and> category_fee (agency_code app) = 10"
    using fee_amount_region [of app "py ''gujarat''" 20] FEES_gujarat
      FEES_keys_normal [OF FEES_gujarat] category_fee_10 by simp
  have e: "\<not> is_bpl app \<and>
      (\<not> truthy (state app) \<or> (state app = Some s \<and> map_of FEES (state_key s) = None))
      \<longrightarrow> fee_amount app = category_fee (agency_code app)"
    using fee_amount_fallback by blast
  have f: "\<forall>c \<in> fst ` set AGENCY_DIRECTORY.
      \<not> is_bpl app \<and> \<not> truthy (state app) \<and> agency_code app = c \<longrightarrow> fee_amount app = 10"
    using fee_amount_fallback [of app s] category_fee_10 by auto
  have g: "category_fee code = dict_get FEES (dict_get (dict_get AGENCY_DIRECTORY code [])
      (py ''fee_category'') (py ''central'')) 10"
    by (simp add: category_fee_def)
  show ?thesis
    using a b c d e f g category_fee_10 by blast
qed

theorem fee_resolution_witness:
  "fee_amount (test_application\<lparr>is_bpl := True, state := Some (py ''Gujarat'')\<rparr>) = 0 \<and>
   fee_amount (test_application\<lparr>state := Some (py ''Gujarat'')\<rparr>) = 20 \<and>
   fee_amount (test_application\<lparr>state := Some (py ''gujarat'')\<rparr>) = 20 \<and>
   fee_amount (test_application\<lparr>state := Some (py ''Atlantis'')\<rparr>) = 10 \<and>
   py ''awbi'' \<in> fst ` set AGENCY_DIRECTORY \<and>
   fee_amount test_application = 10"
proof -
  let ?bpl = "test_application\<lparr>is_bpl := True, state := Some (py ''Gujarat'')\<rparr>"
  let ?guj = "test_application\<lparr>state := Some (py ''Gujarat'')\<rparr>"
  let ?gul = "test_application\<lparr>state := Some (py ''gujarat'')\<rparr>"
  let ?atl = "test_application\<lparr>state := Some (py ''Atlantis'')\<rparr>"
  have k: "map_of FEES (state_key (py ''Atlantis'')) = None"
    by (simp add: FEES_def state_key_unfold)
  have m: "py ''awbi'' \<in> fst ` set AGENCY_DIRECTORY"
    by (simp add: AGENCY_DIRECTORY_def)
  have 1: "fee_amount ?bpl = 0"
    using fee_resolution [where app = ?bpl] by simp
  have 2: "fee_amount ?guj = 20"
    using fee_resolution [where app = ?guj and s = "py ''Gujarat''" and fee = 20] FEES_gujarat state_key_Gujarat
    by (simp add: test_application_def)
  have 3: "fee_amount ?gul = 20"
    using fee_resolution [where app = ?gul and s = "py ''gujarat''" and fee = 20] FEES_gujarat
    by (simp add: test_application_def)
  have 4: "fee_amount ?atl = 10"
    using fee_resolution [where app = ?atl and s = "py ''Atlantis''" and code = "py ''awbi''"] k
    by (simp add: test_application_def category_fee_10)
  have 5: "fee_amount test_application = 10"
    using fee_resolution [where app = test_application and code = "py ''awbi''"] m
    by (simp add: test_application_def)
  show ?thesis
    using 1 2 3 4 5 m by simp
qed



section \<open>Template question extraction\<close>








section \<open>Rows and keys\<close>

lemma session_get_id: "session_get rows i = Some r \<Longrightarrow> r_id r = i"
  by (auto simp: session_get_def find_Some_iff)

lemma session_get_None_iff: "session_get rows i = None \<longleftrightarrow> i \<notin> set (map r_id rows)"
  by (auto simp: session_get_def find_None_iff)

lemma session_get_commit:
  "session_get rows i = Some r \<Longrightarrow> r_id r' = i \<Longrightarrow> session_get (commit rows r') i = Some r'"
  by (induction rows) (auto simp: session_get_def commit_def split: if_splits)

lemma session_get_commit_other:
  "r_id r' \<noteq> j \<Longrightarrow> session_get (commit rows r') j = session_get rows j"
  by (induction rows) (auto simp: session_get_def commit_def)




lemma find_append:
  "find P (xs @ ys) = (case find P xs of None \<Rightarrow> find P ys | Some x \<Rightarrow> Some x)"
  by (induction xs) simp_all


lemma session_get_append_old:
  "j \<noteq> r_id r \<Longrightarrow> session_get (rows @ [r]) j = session_get rows j"
  by (cases "find (\<lambda>x. r_id x = j) rows") (auto simp: session_get_def find_append)

section \<open>What a mutator does to the row it finds\<close>

lemma update_status_found:
  "session_get rows i = Some r \<Longrightarrow>
   update_status clk i st notes summary rows =
     Inr (True, commit rows
       ((with_note clk [] notes (r\<lparr>r_status := st, r_updated_at := utcnow clk\<rparr>))
          \<lparr>r_response_summary := (if truthy summary then summary else r_response_summary r),
           r_response_date :=
             (if st = RESPONSE_RECEIVED then Some (now clk) else r_response_date r)\<rparr>))"
  by (cases "notes") (simp_all add: update_status_def with_note_def Let_def)

lemma with_note_id [simp]: "r_id (with_note clk label notes r) = r_id r"
  by (simp add: with_note_def split: option.split)

lemma row_after_commit:
  "session_get rows i = Some r \<Longrightarrow> r_id r' = i \<Longrightarrow> row_after (Inr (x, commit rows r')) i = Some r'"
  by (simp add: row_after_def session_get_commit)

lemma mark_response_received_found:
  "session_get rows i = Some r \<Longrightarrow>
   mark_response_received clk i summary documents response_date rows =
     Inr (True, commit rows
       (r\<lparr>r_status := RESPONSE_RECEIVED,
          r_response_date := Some (case response_date of None \<Rightarrow> now clk | Some d \<Rightarrow> d),
          r_response_summary := Some summary,
          r_documents_received :=
            (case documents of None \<Rightarrow> r_documents_received r
             | Some ds \<Rightarrow> if ds \<noteq> [] then Some ds else r_documents_received r),
          r_updated_at := utcnow clk\<rparr>))"
  by (cases documents) (simp_all add: mark_response_received_def Let_def)

lemma file_first_appeal_found:
  "session_get rows i = Some r \<Longrightarrow>
   add_days (case appeal_date of None \<Rightarrow> now clk | Some d \<Rightarrow> d) 30 = Inr deadline \<Longrightarrow>
   file_first_appeal clk i authority appeal_date notes rows =
     Inr (True, commit rows
       ((with_note clk (py ''First appeal: '') notes
          (r\<lparr>r_status := FIRST_APPEAL_FILED,
             r_first_appeal_date := Some (case appeal_date of None \<Rightarrow> now clk | Some d \<Rightarrow> d),
             r_first_appeal_authority := Some authority,
             r_first_appeal_deadline := Some deadline\<rparr>))\<lparr>r_updated_at := utcnow clk\<rparr>))"
  by (cases "notes") (simp_all add: file_first_appeal_def with_note_def Let_def)

lemma file_first_appeal_overflow:
  "session_get rows i = Some r \<Longrightarrow>
   add_days (case appeal_date of None \<Rightarrow> now clk | Some d \<Rightarrow> d) 30 = Inl e \<Longrightarrow>
   file_first_appeal clk i authority appeal_date notes rows = Inl e"
  by (simp add: file_first_appeal_def Let_def)

lemma file_second_appeal_found:
  "session_get rows i = Some r \<Longrightarrow>
   add_days (case appeal_date of None \<Rightarrow> now clk | Some d \<Rightarrow> d) 90 = Inr deadline \<Longrightarrow>
   file_second_appeal clk i appeal_date commission notes rows =
     Inr (True, commit rows
       ((with_note clk (py ''Second appeal: '') notes
          (r\<lparr>r_status := SECOND_APPEAL_FILED,
             r_second_appeal_date := Some (case appeal_date of None \<Rightarrow> now clk | Some d \<Rightarrow> d),
             r_second_appeal_authority := Some commission,
             r_second_appeal_deadline := Some deadline\<rparr>))\<lparr>r_updated_at := utcnow clk\<rparr>))"
  by (cases "notes") (simp_all add: file_second_appeal_def with_note_def Let_def)

lemma file_second_appeal_overflow:
  "session_get rows i = Some r \<Longrightarrow>
   add_days (case appeal_date of None \<Rightarrow> now clk | Some d \<Rightarrow> d) 90 = Inl e \<Longrightarrow>
   file_second_appeal clk i appeal_date commission notes rows = Inl e"
  by (simp add: file_second_appeal_def Let_def)

section \<open>A mutator invoked twice\<close>

lemma with_note_fields [simp]:
  "r_status (with_note clk label notes r) = r_status r"
  "r_updated_at (with_note clk label notes r) = r_updated_at r"
  "r_response_summary (with_note clk label notes r) = r_response_summary r"
  "r_response_date (with_note clk label notes r) = r_response_date r"
  "r_first_appeal_date (with_note clk label notes r) = r_first_appeal_date r"
  "r_first_appeal_authority (with_note clk label notes r) = r_first_appeal_authority r"
  "r_first_appeal_deadline (with_note clk label notes r) = r_first_appeal_deadline r"
  "r_second_appeal_date (with_note clk label notes r) = r_second_appeal_date r"
  "r_second_appeal_authority (with_note clk label notes r) = r_second_appeal_authority r"
  "r_second_appeal_deadline (with_note clk label notes r) = r_second_appeal_deadline r"
  by (simp_all add: with_note_def split: option.split)

lemma update_status_row:
  "session_get rows i = Some r \<Longrightarrow>
   row_after (update_status clk i st notes summary rows) i =
     Some ((with_note clk [] notes (r\<lparr>r_status := st, r_updated_at := utcnow clk\<rparr>))
          \<lparr>r_response_summary := (if truthy summary then summary else r_response_summary r),
           r_response_date :=
             (if st = RESPONSE_RECEIVED then Some (now clk) else r_response_date r)\<rparr>)"
  using session_get_id [of rows i r]
  by (simp add: update_status_found row_after_commit)

lemma update_status_twice:
  assumes "session_get rows i = Some r"
    and "row_after (update_status c1 i st notes summary rows) i = Some r1"
  shows "row_after (and_then (update_status c1 i st notes summary rows)
           (update_status c2 i st notes summary)) i =
     Some ((with_note c2 [] notes r1)
          \<lparr>r_updated_at := utcnow c2,
           r_response_date :=
             (if st = RESPONSE_RECEIVED then Some (now c2) else r_response_date r1)\<rparr>)"
proof -
  let ?r1 = "(with_note c1 [] notes (r\<lparr>r_status := st, r_updated_at := utcnow c1\<rparr>))
          \<lparr>r_response_summary := (if truthy summary then summary else r_response_summary r),
           r_response_date :=
             (if st = RESPONSE_RECEIVED then Some (now c1) else r_response_date r)\<rparr>"
  have id: "r_id r = i"
    using assms(1) by (rule session_get_id)
  have r1: "r1 = ?r1"
    using assms update_status_row [OF assms(1), of c1 st "notes" summary] by simp
  have first: "update_status c1 i st notes summary rows = Inr (True, commit rows ?r1)"
    using assms(1) by (rule update_status_found)
  have get1: "session_get (commit rows ?r1) i = Some ?r1"
    using assms(1) id by (simp add: session_get_commit)
  have "row_after (and_then (update_status c1 i st notes summary rows)
           (update_status c2 i st notes summary)) i =
     row_after (update_status c2 i st notes summary (commit rows ?r1)) i"
    by (simp add: first and_then_def)
  also have "\<dots> = Some ((with_note c2 [] notes (?r1\<lparr>r_status := st, r_updated_at := utcnow c2\<rparr>))
          \<lparr>r_response_summary := (if truthy summary then summary else r_response_summary ?r1),
           r_response_date :=
             (if st = RESPONSE_RECEIVED then Some (now c2) else r_response_date ?r1)\<rparr>)"
    by (rule update_status_row [OF get1])
  also have "\<dots> = Some ((with_note c2 [] notes ?r1)
          \<lparr>r_updated_at := utcnow c2,
           r_response_date :=
             (if st = RESPONSE_RECEIVED then Some (now c2) else r_response_date ?r1)\<rparr>)"
    by (cases "notes") (simp_all add: with_note_def)
  finally show ?thesis
    by (simp only: r1)
qed


lemma mark_response_received_row:
  "session_get rows i = Some r \<Longrightarrow>
   row_after (mark_response_received clk i summary documents response_date rows) i =
     Some (r\<lparr>r_status := RESPONSE_RECEIVED,
          r_response_date := Some (case response_date of None \<Rightarrow> now clk | Some d \<Rightarrow> d),
          r_response_summary := Some summary,
          r_documents_received :=
            (case documents of None \<Rightarrow> r_documents_received r
             | Some ds \<Rightarrow> if ds \<noteq> [] then Some ds else r_documents_received r),
          r_updated_at := utcnow clk\<rparr>)"
  using session_get_id [of rows i r]
  by (simp add: mark_response_received_found row_after_commit)

lemma mark_response_received_twice:
  assumes "session_get rows i = Some r"
    and "row_after (mark_response_received c1 i summary documents response_date rows) i = Some r1"
  shows "row_after (and_then (mark_response_received c1 i summary documents response_date rows)
           (mark_response_received c2 i summary documents response_date)) i =
     Some (r1\<lparr>r_updated_at := utcnow c2,
              r_response_date := Some (case response_date of None \<Rightarrow> now c2 | Some d \<Rightarrow> d)\<rparr>)"
proof -
  let ?r1 = "r\<lparr>r_status := RESPONSE_RECEIVED,
          r_response_date := Some (case response_date of None \<Rightarrow> now c1 | Some d \<Rightarrow> d),
          r_response_summary := Some summary,
          r_documents_received :=
            (case documents of None \<Rightarrow> r_documents_received r
             | Some ds \<Rightarrow> if ds \<noteq> [] then Some ds else r_documents_received r),
          r_updated_at := utcnow c1\<rparr>"
  have id: "r_id r = i"
    using assms(1) by (rule session_get_id)
  have r1: "r1 = ?r1"
    using assms mark_response_received_row [OF assms(1), of c1 summary documents response_date]
    by simp
  have first: "mark_response_received c1 i summary documents response_date rows =
      Inr (True, commit rows ?r1)"
    using assms(1) by (rule mark_response_received_found)
  have get1: "session_get (commit rows ?r1) i = Some ?r1"
    using assms(1) id by (simp add: session_get_commit)
  have "row_after (and_then (mark_response_received c1 i summary documents response_date rows)
           (mark_response_received c2 i summary documents response_date)) i =
     row_after (mark_response_received c2 i summary documents response_date (commit rows ?r1)) i"
    by (simp add: first and_then_def)
  also have "\<dots> = Some (?r1\<lparr>r_status := RESPONSE_RECEIVED,
          r_response_date := Some (case response_date of None \<Rightarrow> now c2 | Some d \<Rightarrow> d),
          r_response_summary := Some summary,
          r_documents_received :=
            (case documents of None \<Rightarrow> r_documents_received ?r1
             | Some ds \<Rightarrow> if ds \<noteq> [] then Some ds else r_documents_received ?r1),
          r_updated_at := utcnow c2\<rparr>)"
    by (rule mark_response_received_row [OF get1])
  also have "\<dots> = Some (?r1\<lparr>r_updated_at := utcnow c2,
              r_response_date := Some (case response_date of None \<Rightarrow> now c2 | Some d \<Rightarrow> d)\<rparr>)"
    by (cases documents) simp_all
  finally show ?thesis
    by (simp only: r1)
qed

lemma file_first_appeal_row:
  "session_get rows i = Some r \<Longrightarrow>
   add_days (case appeal_date of None \<Rightarrow> now clk | Some d \<Rightarrow> d) 30 = Inr deadline \<Longrightarrow>
   row_after (file_first_appeal clk i authority appeal_date notes rows) i =
     Some ((with_note clk (py ''First appeal: '') notes
          (r\<lparr>r_status := FIRST_APPEAL_FILED,
             r_first_appeal_date := Some (case appeal_date of None \<Rightarrow> now clk | Some d \<Rightarrow> d),
             r_first_appeal_authority := Some authority,
             r_first_appeal_deadline := Some deadline\<rparr>))\<lparr>r_updated_at := utcnow clk\<rparr>)"
  using session_get_id [of rows i r]
  by (simp add: file_first_appeal_found row_after_commit)

lemma file_first_appeal_twice:
  assumes "session_get rows i = Some r"
    and "add_days (case appeal_date of None \<Rightarrow> now c1 | Some d \<Rightarrow> d) 30 = Inr dl1"
    and "add_days (case appeal_date of None \<Rightarrow> now c2 | Some d \<Rightarrow> d) 30 = Inr dl2"
    and "row_after (file_first_appeal c1 i authority appeal_date notes rows) i = Some r1"
  shows "row_after (and_then (file_first_appeal c1 i authority appeal_date notes rows)
           (file_first_appeal c2 i authority appeal_date notes)) i =
     Some ((with_note c2 (py ''First appeal: '') notes r1)
          \<lparr>r_updated_at := utcnow c2,
           r_first_appeal_date := Some (case appeal_date of None \<Rightarrow> now c2 | Some d \<Rightarrow> d),
           r_first_appeal_deadline := Some dl2\<rparr>)"
proof -
  let ?r1 = "(with_note c1 (py ''First appeal: '') notes
          (r\<lparr>r_status := FIRST_APPEAL_FILED,
             r_first_appeal_date := Some (case appeal_date of None \<Rightarrow> now c1 | Some d \<Rightarrow> d),
             r_first_appeal_authority := Some authority,
             r_first_appeal_deadline := Some dl1\<rparr>))\<lparr>r_updated_at := utcnow c1\<rparr>"
  have id: "r_id r = i"
    using assms(1) by (rule session_get_id)
  have r1: "r1 = ?r1"
    using assms(4) file_first_appeal_row [OF assms(1) assms(2), of authority "notes"] by simp
  have first: "file_first_appeal c1 i authority appeal_date notes rows =
      Inr (True, commit rows ?r1)"
    using assms(1) assms(2) by (rule file_first_appeal_found)
  have get1: "session_get (commit rows ?r1) i = Some ?r1"
    using assms(1) id by (simp add: session_get_commit)
  have "row_after (and_then (file_first_appeal c1 i authority appeal_date notes rows)
           (file_first_appeal c2 i authority appeal_date notes)) i =
     row_after (file_first_appeal c2 i authority appeal_date notes (commit rows ?r1)) i"
    by (simp add: first and_then_def)
  also have "\<dots> = Some ((with_note c2 (py ''First appeal: '') notes
          (?r1\<lparr>r_status := FIRST_APPEAL_FILED,
             r_first_appeal_date := Some (case appeal_date of None \<Rightarrow> now c2 | Some d \<Rightarrow> d),
             r_first_appeal_authority := Some authority,
             r_first_appeal_deadline := Some dl2\<rparr>))\<lparr>r_updated_at := utcnow c2\<rparr>)"
    by (rule file_first_appeal_row [OF get1 assms(3)])
  also have "\<dots> = Some ((with_note c2 (py ''First appeal: '') notes ?r1)
          \<lparr>r_updated_at := utcnow c2,
           r_first_appeal_date := Some (case appeal_date of None \<Rightarrow> now c2 | Some d \<Rightarrow> d),
           r_first_appeal_deadline := Some dl2\<rparr>)"
    by (cases "notes") (simp_all add: with_note_def)
  finally show ?thesis
    by (simp only: r1)
qed

lemma file_second_appeal_row:
  "session_get rows i = Some r \<Longrightarrow>
   add_days (case appeal_date of None \<Rightarrow> now clk | Some d \<Rightarrow> d) 90 = Inr deadline \<Longrightarrow>
   row_after (file_second_appeal clk i appeal_date commission notes rows) i =
     Some ((with_note clk (py ''Second appeal: '') notes
          (r\<lparr>r_status := SECOND_APPEAL_FILED,
             r_second_appeal_date := Some (case appeal_date of None \<Rightarrow> now clk | Some d \<Rightarrow> d),
             r_second_appeal_authority := Some commission,
             r_second_appeal_deadline := Some deadline\<rparr>))\<lparr>r_updated_at := utcnow clk\<rparr>)"
  using session_get_id [of rows i r]
  by (simp add: file_second_appeal_found row_after_commit)

lemma file_second_appeal_twice:
  assumes "session_get rows i = Some r"
    and "add_days (case appeal_date of None \<Rightarrow> now c1 | Some d \<Rightarrow> d) 90 = Inr dl1"
    and "add_days (case appeal_date of None \<Rightarrow> now c2 | Some d \<Rightarrow> d) 90 = Inr dl2"
    and "row_after (file_second_appeal c1 i appeal_date commission notes rows) i = Some r1"
  shows "row_after (and_then (file_second_appeal c1 i appeal_date commission notes rows)
           (file_second_appeal c2 i appeal_date commission notes)) i =
     Some ((with_note c2 (py ''Second appeal: '') notes r1)
          \<lparr>r_updated_at := utcnow c2,
           r_second_appeal_date := Some (case appeal_date of None \<Rightarrow> now c2 | Some d \<Rightarrow> d),
           r_second_appeal_deadline := Some dl2\<rparr>)"
proof -
  let ?r1 = "(with_note c1 (py ''Second appeal: '') notes
          (r\<lparr>r_status := SECOND_APPEAL_FILED,
             r_second_appeal_date := Some (case appeal_date of None \<Rightarrow> now c1 | Some d \<Rightarrow> d),
             r_second_appeal_authority := Some commission,
             r_second_appeal_deadline := Some dl1\<rparr>))\<lparr>r_updated_at := utcnow c1\<rparr>"
  have id: "r_id r = i"
    using assms(1) by (rule session_get_id)
  have r1: "r1 = ?r1"
    using assms(4) file_second_appeal_row [OF assms(1) assms(2), of commission "notes"] by simp
  have first: "file_second_appeal c1 i appeal_date commission notes rows =
      Inr (True, commit rows ?r1)"
    using assms(1) assms(2) by (rule file_second_appeal_found)
  have get1: "session_get (commit rows ?r1) i = Some ?r1"
    using assms(1) id by (simp add: session_get_commit)
  have "row_after (and_then (file_second_appeal c1 i appeal_date commission notes rows)
           (file_second_appeal c2 i appeal_date commission notes)) i =
     row_after (file_second_appeal c2 i appeal_date commission notes (commit rows ?r1)) i"
    by (simp add: first and_then_def)
  also have "\<dots> = Some ((with_note c2 (py ''Second appeal: '') notes
          (?r1\<lparr>r_status := SECOND_APPEAL_FILED,
             r_second_appeal_date := Some (case appeal_date of None \<Rightarrow> now c2 | Some d \<Rightarrow> d),
             r_second_appeal_authority := Some commission,
             r_second_appeal_deadline := Some dl2\<rparr>))\<lparr>r_updated_at := utcnow c2\<rparr>)"
    by (rule file_second_appeal_row [OF get1 assms(3)])
  also have "\<dots> = Some ((with_note c2 (py ''Second appeal: '') notes ?r1)
          \<lparr>r_updated_at := utcnow c2,
           r_second_appeal_date := Some (case appeal_date of None \<Rightarrow> now c2 | Some d \<Rightarrow> d),
           r_second_appeal_deadline := Some dl2\<rparr>)"
    by (cases "notes") (simp_all add: with_note_def)
  finally show ?thesis
    by (simp only: r1)
qed

section \<open>The tracker's operations\<close>

lemmas run_unfold = rows_of_def and_then_def row_after_def add_rti_def add_days_def MAXORDINAL_def
  next_id_def session_get_def commit_def test_clock_def next_day_clock_def old_date_def Let_def

lemma test_db_ids: "map r_id test_db = [1]"
  by (simp add: test_db_def run_unfold)

lemma test_db_get: "session_get test_db 1 = Some (hd test_db)"
  by (simp add: test_db_def run_unfold)


text \<open>
  Claim C5. For a record id that is not in the store, each of the four mutators returns
  \<^verbatim>\<open>False\<close> and leaves the database as it was, and the lookup returns \<^verbatim>\<open>None\<close>; none of
  them raises.
\<close>

theorem missing_id_not_found:
  "i \<notin> set (map r_id rows) \<Longrightarrow>
   update_status clk i st notes summary rows = Inr (False, rows) \<and>
   mark_response_received clk i response_text documents response_date rows = Inr (False, rows) \<and>
   file_first_appeal clk i authority appeal_date notes rows = Inr (False, rows) \<and>
   file_second_appeal clk i appeal_date commission notes rows = Inr (False, rows) \<and>
   get_by_id clk rows i = None"
proof -
  assume "i \<notin> set (map r_id rows)"
  then have "session_get rows i = None"
    by (simp add: session_get_None_iff)
  then show ?thesis
    by (simp add: update_status_def mark_response_received_def file_first_appeal_def
        file_second_appeal_def get_by_id_def)
qed

theorem missing_id_not_found_witness:
  "9999 \<notin> set (map r_id test_db) \<and>
   update_status test_clock 9999 ACKNOWLEDGED (Some (py ''Acknowledged'')) None test_db =
     Inr (False, test_db) \<and>
   mark_response_received test_clock 9999 (py ''Reply'') None None test_db = Inr (False, test_db) \<and>
   file_first_appeal test_clock 9999 (py ''Secretary, AWBI'') None None test_db =
     Inr (False, test_db) \<and>
   file_second_appeal test_clock 9999 None DEFAULT_COMMISSION None test_db = Inr (False, test_db) \<and>
   get_by_id test_clock test_db 9999 = None"
proof -
  have m: "9999 \<notin> set (map r_id test_db)"
    by (simp add: test_db_ids)
  show ?thesis
    using m missing_id_not_found [OF m] by simp
qed




lemma row_after_Inr:
  "res = Inr (x, rows') \<Longrightarrow> session_get rows' i = Some r' \<Longrightarrow> row_after res i = Some r'"
  by (simp add: row_after_def)

text \<open>
  Claim C4. For every record id in the store, \<^verbatim>\<open>file_first_appeal\<close> returns \<^verbatim>\<open>True\<close> and
  leaves the record with status \<^verbatim>\<open>first_appeal_filed\<close>, \<^verbatim>\<open>first_appeal_date\<close> the date
  given (the current time when none is) and \<^verbatim>\<open>first_appeal_deadline\<close> that date plus 30
  days, whatever deadline the record held before; \<^verbatim>\<open>file_second_appeal\<close> does the same
  with \<^verbatim>\<open>second_appeal_date\<close> and 90 days. A deadline past the end of the calendar
  raises \<^verbatim>\<open>OverflowError\<close> instead.
\<close>

theorem appeal_deadline_recomputed:
  "session_get rows i = Some r \<Longrightarrow>
   (add_days (case appeal_date of None \<Rightarrow> now clk | Some d \<Rightarrow> d) 30 = Inr deadline \<longrightarrow>
      (\<exists>rows' r'. file_first_appeal clk i authority appeal_date notes rows = Inr (True, rows') \<and>
         session_get rows' i = Some r' \<and>
         r_status r' = FIRST_APPEAL_FILED \<and>
         r_first_appeal_date r' = Some (case appeal_date of None \<Rightarrow> now clk | Some d \<Rightarrow> d) \<and>
         r_first_appeal_deadline r' = Some deadline)) \<and>
   (add_days (case appeal_date of None \<Rightarrow> now clk | Some d \<Rightarrow> d) 30 = Inl e \<longrightarrow>
      file_first_appeal clk i authority appeal_date notes rows = Inl e) \<and>
   (add_days (case appeal_date of None \<Rightarrow> now clk | Some d \<Rightarrow> d) 90 = Inr deadline \<longrightarrow>
      (\<exists>rows' r'. file_second_appeal clk i appeal_date commission notes rows = Inr (True, rows') \<and>
         session_get rows' i = Some r' \<and>
         r_status r' = SECOND_APPEAL_FILED \<and>
         r_second_appeal_date r' = Some (case appeal_date of None \<Rightarrow> now clk | Some d \<Rightarrow> d) \<and>
         r_second_appeal_deadline r' = Some deadline)) \<and>
   (add_days (case appeal_date of None \<Rightarrow> now clk | Some d \<Rightarrow> d) 90 = Inl e \<longrightarrow>
      file_second_appeal clk i appeal_date commission notes rows = Inl e)"
proof -
  assume g: "session_get rows i = Some r"
  have id: "r_id r = i"
    using g by (rule session_get_id)
  let ?d = "case appeal_date of None \<Rightarrow> now clk | Some d \<Rightarrow> d"
  have a: "\<exists>rows' r'. file_first_appeal clk i authority appeal_date notes rows = Inr (True, rows') \<and>
         session_get rows' i = Some r' \<and> r_status r' = FIRST_APPEAL_FILED \<and>
         r_first_appeal_date r' = Some ?d \<and> r_first_appeal_deadline r' = Some deadline"
    if d: "add_days ?d 30 = Inr deadline"
  proof -
    let ?r' = "(with_note clk (py ''First appeal: '') notes
          (r\<lparr>r_status := FIRST_APPEAL_FILED, r_first_appeal_date := Some ?d,
             r_first_appeal_authority := Some authority,
             r_first_appeal_deadline := Some deadline\<rparr>))\<lparr>r_updated_at := utcnow clk\<rparr>"
    have 1: "file_first_appeal clk i authority appeal_date notes rows = Inr (True, commit rows ?r')"
      using g d by (rule file_first_appeal_found)
    have 2: "session_get (commit rows ?r') i = Some ?r'"
      using g id by (simp add: session_get_commit)
    have 3: "r_status ?r' = FIRST_APPEAL_FILED \<and> r_first_appeal_date ?r' = Some ?d \<and>
        r_first_appeal_deadline ?r' = Some deadline"
      by simp
    from 1 2 3 show ?thesis
      by blast
  qed
  have b: "\<exists>rows' r'. file_second_appeal clk i appeal_date commission notes rows = Inr (True, rows') \<and>
         session_get rows' i = Some r' \<and> r_status r' = SECOND_APPEAL_FILED \<and>
         r_second_appeal_date r' = Some ?d \<and> r_second_appeal_deadline r' = Some deadline"
    if d: "add_days ?d 90 = Inr deadline"
  proof -
    let ?r' = "(with_note clk (py ''Second appeal: '') notes
          (r\<lparr>r_status := SECOND_APPEAL_FILED, r_second_appeal_date := Some ?d,
             r_second_appeal_authority := Some commission,
             r_second_appeal_deadline := Some deadline\<rparr>))\<lparr>r_updated_at := utcnow clk\<rparr>"
    have 1: "file_second_appeal clk i appeal_date commission notes rows = Inr (True, commit rows ?r')"
      using g d by (rule file_second_appeal_found)
    have 2: "session_get (commit rows ?r') i = Some ?r'"
      using g id by (simp add: session_get_commit)
    have 3: "r_status ?r' = SECOND_APPEAL_FILED \<and> r_second_appeal_date ?r' = Some ?d \<and>
        r_second_appeal_deadline ?r' = Some deadline"
      by simp
    from 1 2 3 show ?thesis
      by blast
  qed
  show ?thesis
    using a b file_first_appeal_overflow [OF g] file_second_appeal_overflow [OF g] by blast
qed

theorem appeal_deadline_recomputed_witness:
  "session_get test_db 1 = Some (hd test_db) \<and>
   map_option r_first_appeal_deadline
     (row_after (file_first_appeal test_clock 1 (py ''Secretary, AWBI'') None None test_db) 1) =
     Some (Some \<lparr>ordinal = 739953, hour = 9, minute = 5, second = 0, microsecond = 0\<rparr>) \<and>
   map_option r_first_appeal_deadline
     (row_after
       (and_then (file_first_appeal test_clock 1 (py ''Secretary, AWBI'') None None test_db)
         (file_first_appeal next_day_clock 1 (py ''Secretary, AWBI'') (Some late_appeal_date) None))
       1) =
     Some (Some \<lparr>ordinal = 740030, hour = 10, minute = 0, second = 0, microsecond = 0\<rparr>) \<and>
   map_option r_second_appeal_deadline
     (row_after (file_second_appeal test_clock 1 (Some late_appeal_date) DEFAULT_COMMISSION None
        test_db) 1) =
     Some (Some \<lparr>ordinal = 740090, hour = 10, minute = 0, second = 0, microsecond = 0\<rparr>)"
proof -
  let ?auth = "py ''Secretary, AWBI''"
  have d1: "add_days (case None of None \<Rightarrow> now test_clock | Some d \<Rightarrow> d) 30 =
      Inr \<lparr>ordinal = 739953, hour = 9, minute = 5, second = 0, microsecond = 0\<rparr>"
    by (simp add: add_days_def test_clock_def MAXORDINAL_def)
  have d2: "add_days (case Some late_appeal_date of None \<Rightarrow> now next_day_clock | Some d \<Rightarrow> d) 30 =
      Inr \<lparr>ordinal = 740030, hour = 10, minute = 0, second = 0, microsecond = 0\<rparr>"
    by (simp add: add_days_def late_appeal_date_def MAXORDINAL_def)
  have d3: "add_days (case Some late_appeal_date of None \<Rightarrow> now test_clock | Some d \<Rightarrow> d) 90 =
      Inr \<lparr>ordinal = 740090, hour = 10, minute = 0, second = 0, microsecond = 0\<rparr>"
    by (simp add: add_days_def late_appeal_date_def MAXORDINAL_def)
  obtain rows1 r1 where 1:
    "file_first_appeal test_clock 1 ?auth None None test_db = Inr (True, rows1)"
    "session_get rows1 1 = Some r1"
    "r_first_appeal_deadline r1 =
       Some \<lparr>ordinal = 739953, hour = 9, minute = 5, second = 0, microsecond = 0\<rparr>"
    using appeal_deadline_recomputed [OF test_db_get, THEN conjunct1, rule_format, OF d1]
    by blast
  obtain rows2 r2 where 2:
    "file_first_appeal next_day_clock 1 ?auth (Some late_appeal_date) None rows1 = Inr (True, rows2)"
    "session_get rows2 1 = Some r2"
    "r_first_appeal_deadline r2 =
       Some \<lparr>ordinal = 740030, hour = 10, minute = 0, second = 0, microsecond = 0\<rparr>"
    using appeal_deadline_recomputed [OF 1(2), THEN conjunct1, rule_format, OF d2]
    by blast
  obtain rows3 r3 where 3:
    "file_second_appeal test_clock 1 (Some late_appeal_date) DEFAULT_COMMISSION None test_db =
       Inr (True, rows3)"
    "session_get rows3 1 = Some r3"
    "r_second_appeal_deadline r3 =
       Some \<lparr>ordinal = 740090, hour = 10, minute = 0, second = 0, microsecond = 0\<rparr>"
    using appeal_deadline_recomputed [OF test_db_get, THEN conjunct2, THEN conjunct2,
        THEN conjunct1, rule_format, OF d3]
    by blast
  show ?thesis
    using 1 2 3 test_db_get by (simp add: row_after_def and_then_def)
qed

section \<open>The overdue query\<close>

lemmas overdue_db_unfold = overdue_test_db_def mark_response_received_def run_unfold

lemma overdue_test_db_length: "length overdue_test_db = 3"
  by (simp add: overdue_db_unfold)

lemma overdue_test_db_subject:
  "map r_subject overdue_test_db = [py ''Overdue RTI'', py ''Recent RTI'', py ''Answered RTI'']"
  by (simp add: overdue_db_unfold)

lemma overdue_test_db_status:
  "map r_status overdue_test_db = [FILED, FILED, RESPONSE_RECEIVED]"
  by (simp add: overdue_db_unfold)

lemma overdue_test_db_filing_date:
  "map r_filing_date overdue_test_db = [old_date, now test_clock, old_date]"
  by (simp add: overdue_db_unfold)

lemma overdue_test_db_deadline:
  "map r_response_deadline overdue_test_db =
     [old_date\<lparr>ordinal := 739918\<rparr>, (now test_clock)\<lparr>ordinal := 739953\<rparr>,
      old_date\<lparr>ordinal := 739918\<rparr>]"
  by (simp add: overdue_db_unfold)

lemma add_days_ordinal: "add_days d k = Inr d' \<Longrightarrow> ordinal d' = ordinal d + k"
  by (auto simp: add_days_def split: if_splits)

text \<open>
  Claim C6. The overdue query returns the dictionaries of exactly those records, in the
  order of the table, whose response deadline is strictly earlier than the current time
  and whose status is \<^verbatim>\<open>filed\<close> or \<^verbatim>\<open>acknowledged\<close>. So a record filed 35 days ago with
  status \<^verbatim>\<open>filed\<close> is returned, a record filed today is not, and a record filed 35 days
  ago whose status is \<^verbatim>\<open>response_received\<close> is not.
\<close>

theorem overdue_query:
  "get_overdue clk rows = map (record_to_dict clk) (overdue_rows clk rows) \<and>
   overdue_rows clk rows =
     filter (\<lambda>r. dt_less (r_response_deadline r) (now clk) \<and>
                  (r_status r = FILED \<or> r_status r = ACKNOWLEDGED)) rows \<and>
   (\<forall>r. r \<in> set (overdue_rows clk rows) \<longleftrightarrow>
      r \<in> set rows \<and> dt_less (r_response_deadline r) (now clk) \<and>
      (r_status r = FILED \<or> r_status r = ACKNOWLEDGED)) \<and>
   (\<forall>r \<in> set rows.
      add_days (now clk) (- 35) = Inr (r_filing_date r) \<and>
      add_days (r_filing_date r) 30 = Inr (r_response_deadline r) \<longrightarrow>
        (r_status r = FILED \<longrightarrow> r \<in> set (overdue_rows clk rows)) \<and>
        (r_status r = RESPONSE_RECEIVED \<longrightarrow> r \<notin> set (overdue_rows clk rows))) \<and>
   (\<forall>r \<in> set rows.
      ordinal (r_filing_date r) = ordinal (now clk) \<and>
      add_days (r_filing_date r) 30 = Inr (r_response_deadline r) \<longrightarrow>
        r \<notin> set (overdue_rows clk rows))"
proof -
  have a: "get_overdue clk rows = map (record_to_dict clk) (overdue_rows clk rows)"
    by (simp add: get_overdue_def)
  have b: "overdue_rows clk rows =
     filter (\<lambda>r. dt_less (r_response_deadline r) (now clk) \<and>
                  (r_status r = FILED \<or> r_status r = ACKNOWLEDGED)) rows"
    by (simp add: overdue_rows_def overdue_status_def)
  have c: "\<forall>r. r \<in> set (overdue_rows clk rows) \<longleftrightarrow>
      r \<in> set rows \<and> dt_less (r_response_deadline r) (now clk) \<and>
      (r_status r = FILED \<or> r_status r = ACKNOWLEDGED)"
    by (auto simp: b)
  have d: "(r_status r = FILED \<longrightarrow> r \<in> set (overdue_rows clk rows)) \<and>
        (r_status r = RESPONSE_RECEIVED \<longrightarrow> r \<notin> set (overdue_rows clk rows))"
    if "r \<in> set rows" "add_days (now clk) (- 35) = Inr (r_filing_date r)"
      "add_days (r_filing_date r) 30 = Inr (r_response_deadline r)" for r
  proof -
    have "ordinal (r_response_deadline r) = ordinal (now clk) - 5"
      using add_days_ordinal [OF that(2)] add_days_ordinal [OF that(3)] by simp
    then have "dt_less (r_response_deadline r) (now clk)"
      by (simp add: dt_less_def)
    with that(1) show ?thesis
      by (simp add: b)
  qed
  have e: "r \<notin> set (overdue_rows clk rows)"
    if "ordinal (r_filing_date r) = ordinal (now clk)"
      "add_days (r_filing_date r) 30 = Inr (r_response_deadline r)" for r
  proof -
    have "ordinal (r_response_deadline r) = ordinal (now clk) + 30"
      using add_days_ordinal [OF that(2)] that(1) by simp
    then have "\<not> dt_less (r_response_deadline r) (now clk)"
      by (simp add: dt_less_def)
    then show ?thesis
      by (simp add: b)
  qed
  show ?thesis
    using a b c d e by blast
qed

theorem overdue_query_witness:
  "map r_subject overdue_test_db = [py ''Overdue RTI'', py ''Recent RTI'', py ''Answered RTI''] \<and>
   map r_status overdue_test_db = [FILED, FILED, RESPONSE_RECEIVED] \<and>
   add_days (now test_clock) (- 35) = Inr old_date \<and>
   map r_filing_date overdue_test_db = [old_date, now test_clock, old_date] \<and>
   overdue_test_db ! 0 \<in> set (overdue_rows test_clock overdue_test_db) \<and>
   overdue_test_db ! 1 \<notin> set (overdue_rows test_clock overdue_test_db) \<and>
   overdue_test_db ! 2 \<notin> set (overdue_rows test_clock overdue_test_db) \<and>
   map d_subject (get_overdue test_clock overdue_test_db) = [py ''Overdue RTI'']"
proof -
  obtain r0 r1 r2 where db: "overdue_test_db = [r0, r1, r2]"
    using overdue_test_db_length by (auto simp: length_Suc_conv numeral_3_eq_3)
  have old: "add_days (now test_clock) (- 35) = Inr old_date"
    by (simp add: add_days_def test_clock_def old_date_def MAXORDINAL_def)
  have st: "r_status r0 = FILED" "r_status r2 = RESPONSE_RECEIVED"
    using overdue_test_db_status by (simp_all add: db)
  have fd: "r_filing_date r0 = old_date" "r_filing_date r1 = now test_clock"
    "r_filing_date r2 = old_date"
    using overdue_test_db_filing_date by (simp_all add: db)
  have dl: "add_days (r_filing_date r0) 30 = Inr (r_response_deadline r0)"
    "add_days (r_filing_date r1) 30 = Inr (r_response_deadline r1)"
    "add_days (r_filing_date r2) 30 = Inr (r_response_deadline r2)"
    using overdue_test_db_deadline
    by (simp_all add: db fd add_days_def old_date_def test_clock_def MAXORDINAL_def)
  let ?P = "\<lambda>r. dt_less (r_response_deadline r) (now test_clock) \<and>
                  (r_status r = FILED \<or> r_status r = ACKNOWLEDGED)"
  note q = overdue_query [of test_clock "[r0, r1, r2]"]
  note q2 = q [THEN conjunct2, THEN conjunct1]
  note q3 = q [THEN conjunct2, THEN conjunct2, THEN conjunct1, rule_format]
  note q4 = q [THEN conjunct2, THEN conjunct2, THEN conjunct2, THEN conjunct1, rule_format]
  note q5 = q [THEN conjunct2, THEN conjunct2, THEN conjunct2, THEN conjunct2, rule_format]
  have 0: "r0 \<in> set (overdue_rows test_clock [r0, r1, r2])"
    using q4 [of r0] old fd(1) dl(1) st(1) by simp
  have 1: "r1 \<notin> set (overdue_rows test_clock [r0, r1, r2])"
    using q5 [of r1] fd(2) dl(2) by simp
  have 2: "r2 \<notin> set (overdue_rows test_clock [r0, r1, r2])"
    using q4 [of r2] old fd(3) dl(3) st(2) by simp
  have p: "?P r0" "\<not> ?P r1" "\<not> ?P r2"
    using 0 1 2 q3 [of r0] q3 [of r1] q3 [of r2] by simp_all
  have rows: "overdue_rows test_clock [r0, r1, r2] = [r0]"
    unfolding q2 using p by simp
  have sub: "r_subject r0 = py ''Overdue RTI''"
    using overdue_test_db_subject by (simp add: db)
  have 3: "map d_subject (get_overdue test_clock [r0, r1, r2]) = [py ''Overdue RTI'']"
    using q [THEN conjunct1] rows by (simp add: record_to_dict_def sub)
  show ?thesis
    using old 0 1 2 3 overdue_test_db_subject overdue_test_db_status overdue_test_db_filing_date
    by (simp add: db)
qed

section \<open>Repeating a mutator\<close>

lemma with_note_None [simp]: "with_note clk label None r = r"
  by (simp add: with_note_def)

lemma with_note_Some:
  "n \<noteq> [] \<Longrightarrow>
   with_note clk label (Some n) r = r\<lparr>r_notes := Some (append_note clk (r_notes r) label n)\<rparr>"
  by (simp add: with_note_def)

lemma update_status_returns:
  "session_get rows i = Some r \<Longrightarrow>
   \<exists>r1. row_after (update_status clk i st notes summary rows) i = Some r1"
  by (simp add: update_status_row)

lemma mark_response_received_returns:
  "session_get rows i = Some r \<Longrightarrow>
   \<exists>r1. row_after (mark_response_received clk i summary documents response_date rows) i = Some r1"
  by (simp add: mark_response_received_row)

lemma update_same [simp]:
  "r_response_date r = v \<Longrightarrow> r\<lparr>r_response_date := v\<rparr> = r"
  "r_first_appeal_date r = w \<Longrightarrow> r\<lparr>r_first_appeal_date := w\<rparr> = r"
  "r_first_appeal_deadline r = w \<Longrightarrow> r\<lparr>r_first_appeal_deadline := w\<rparr> = r"
  "r_second_appeal_date r = w \<Longrightarrow> r\<lparr>r_second_appeal_date := w\<rparr> = r"
  "r_second_appeal_deadline r = w \<Longrightarrow> r\<lparr>r_second_appeal_deadline := w\<rparr> = r"
  by (cases r; simp)+

lemma update_status_twice_plain:
  assumes "session_get rows i = Some r" and "st \<noteq> RESPONSE_RECEIVED"
    and "row_after (update_status c1 i st notes summary rows) i = Some r1"
  shows "row_after (and_then (update_status c1 i st notes summary rows)
           (update_status c2 i st notes summary)) i =
     Some ((with_note c2 [] notes r1)\<lparr>r_updated_at := utcnow c2\<rparr>)"
  using update_status_twice [OF assms(1) assms(3), of c2] assms(2) by simp

lemma mark_response_received_twice_dated:
  assumes "session_get rows i = Some r"
    and "row_after (mark_response_received c1 i response_text documents (Some d) rows) i = Some r1"
  shows "row_after (and_then (mark_response_received c1 i response_text documents (Some d) rows)
           (mark_response_received c2 i response_text documents (Some d))) i =
     Some (r1\<lparr>r_updated_at := utcnow c2\<rparr>)"
proof -
  have "r_response_date r1 = Some d"
    using assms(2) mark_response_received_row [OF assms(1), of c1 response_text documents "Some d"]
    by auto
  then have "r_response_date (r1\<lparr>r_updated_at := utcnow c2\<rparr>) = Some d"
    by simp
  then show ?thesis
    using mark_response_received_twice [OF assms, of c2] by simp
qed

lemma file_first_appeal_twice_dated:
  assumes "session_get rows i = Some r" and "add_days d 30 = Inr dl"
    and "row_after (file_first_appeal c1 i authority (Some d) notes rows) i = Some r1"
  shows "row_after (and_then (file_first_appeal c1 i authority (Some d) notes rows)
           (file_first_appeal c2 i authority (Some d) notes)) i =
     Some ((with_note c2 (py ''First appeal: '') notes r1)\<lparr>r_updated_at := utcnow c2\<rparr>)"
proof -
  have d: "add_days (case Some d of None \<Rightarrow> now c1 | Some d \<Rightarrow> d) 30 = Inr dl"
    "add_days (case Some d of None \<Rightarrow> now c2 | Some d \<Rightarrow> d) 30 = Inr dl"
    using assms(2) by simp_all
  have "r_first_appeal_date r1 = Some d \<and> r_first_appeal_deadline r1 = Some dl"
    using assms(3) file_first_appeal_row [OF assms(1) d(1), of authority "notes"] by auto
  then have "r_first_appeal_date
        ((with_note c2 (py ''First appeal: '') notes r1)\<lparr>r_updated_at := utcnow c2\<rparr>) = Some d"
    "r_first_appeal_deadline
        ((with_note c2 (py ''First appeal: '') notes r1)\<lparr>r_updated_at := utcnow c2\<rparr>) = Some dl"
    by simp_all
  then show ?thesis
    using file_first_appeal_twice [OF assms(1) d assms(3)] by simp
qed

lemma file_second_appeal_twice_dated:
  assumes "session_get rows i = Some r" and "add_days d 90 = Inr dl"
    and "row_after (file_second_appeal c1 i (Some d) commission notes rows) i = Some r1"
  shows "row_after (and_then (file_second_appeal c1 i (Some d) commission notes rows)
           (file_second_appeal c2 i (Some d) commission notes)) i =
     Some ((with_note c2 (py ''Second appeal: '') notes r1)\<lparr>r_updated_at := utcnow c2\<rparr>)"
proof -
  have d: "add_days (case Some d of None \<Rightarrow> now c1 | Some d \<Rightarrow> d) 90 = Inr dl"
    "add_days (case Some d of None \<Rightarrow> now c2 | Some d \<Rightarrow> d) 90 = Inr dl"
    using assms(2) by simp_all
  have "r_second_appeal_date r1 = Some d \<and> r_second_appeal_deadline r1 = Some dl"
    using assms(3) file_second_appeal_row [OF assms(1) d(1), of commission "notes"] by auto
  then have "r_second_appeal_date
        ((with_note c2 (py ''Second appeal: '') notes r1)\<lparr>r_updated_at := utcnow c2\<rparr>) = Some d"
    "r_second_appeal_deadline
        ((with_note c2 (py ''Second appeal: '') notes r1)\<lparr>r_updated_at := utcnow c2\<rparr>) = Some dl"
    by simp_all
  then show ?thesis
    using file_second_appeal_twice [OF assms(1) d assms(3)] by simp
qed

lemma strftime_test_clock:
  "strftime_Ymd_HM (now test_clock) = py ''2026-11-03 09:05''"
  "strftime_Ymd_HM (now next_day_clock) = py ''2026-11-04 09:05''"
  by (simp_all add: strftime_Ymd_HM_def test_clock_def next_day_clock_def year_def month_def
      day_def ord2ymd_def Let_def DAYS_BEFORE_MONTH_def DAYS_IN_MONTH_def pad_def zfill_def
      str_int_def py_def)

lemma append_note_first:
  "append_note test_clock None [] (py ''Acknowledged'') = py ''[2026-11-03 09:05] Acknowledged''"
  by (simp add: append_note_def strftime_test_clock) (simp add: py_def strip_def isspace_def)

lemma append_note_second:
  "append_note next_day_clock (Some (py ''[2026-11-03 09:05] Acknowledged'')) []
     (py ''Acknowledged'') =
   py ''[2026-11-03 09:05] Acknowledged'' @ [10] @ py ''[2026-11-04 09:05] Acknowledged''"
  by (simp add: append_note_def strftime_test_clock) (simp add: py_def strip_def isspace_def)

lemma test_db_notes: "r_notes (hd test_db) = None"
  by (simp add: test_db_def run_unfold)

text \<open>
  Claim C9, as the code has it. For an existing record, invoking a mutator a second time
  with the same arguments leaves every field as the first invocation left it, except
  the notes, which gain one more timestamped line when a note is given, and
  \<^verbatim>\<open>updated_at\<close>, which every invocation stamps anew. This is the case when the
  arguments fix the dates: \<^verbatim>\<open>update_status\<close> to a status other than
  \<^verbatim>\<open>response_received\<close>, and the other three mutators called with an explicit date.
  Called without a date (and for \<^verbatim>\<open>update_status\<close> to \<^verbatim>\<open>response_received\<close>) the second
  invocation also sets the date it defaults from the clock, and the deadline computed
  from it, to the values of its own clock.
\<close>

theorem mutator_invoked_twice:
  "session_get rows i = Some r \<Longrightarrow>
   (st \<noteq> RESPONSE_RECEIVED \<longrightarrow>
      (\<exists>r1. row_after (update_status c1 i st notes summary rows) i = Some r1 \<and>
         row_after (and_then (update_status c1 i st notes summary rows)
           (update_status c2 i st notes summary)) i =
           Some ((with_note c2 [] notes r1)\<lparr>r_updated_at := utcnow c2\<rparr>))) \<and>
   (\<exists>r1. row_after (mark_response_received c1 i response_text documents (Some d) rows) i = Some r1 \<and>
      row_after (and_then (mark_response_received c1 i response_text documents (Some d) rows)
        (mark_response_received c2 i response_text documents (Some d))) i =
        Some (r1\<lparr>r_updated_at := utcnow c2\<rparr>)) \<and>
   (add_days d 30 = Inr dl \<longrightarrow>
      (\<exists>r1. row_after (file_first_appeal c1 i authority (Some d) notes rows) i = Some r1 \<and>
         row_after (and_then (file_first_appeal c1 i authority (Some d) notes rows)
           (file_first_appeal c2 i authority (Some d) notes)) i =
           Some ((with_note c2 (py ''First appeal: '') notes r1)\<lparr>r_updated_at := utcnow c2\<rparr>))) \<and>
   (add_days d 90 = Inr dl \<longrightarrow>
      (\<exists>r1. row_after (file_second_appeal c1 i (Some d) commission notes rows) i = Some r1 \<and>
         row_after (and_then (file_second_appeal c1 i (Some d) commission notes rows)
           (file_second_appeal c2 i (Some d) commission notes)) i =
           Some ((with_note c2 (py ''Second appeal: '') notes r1)\<lparr>r_updated_at := utcnow c2\<rparr>))) \<and>
   (\<exists>r1. row_after (update_status c1 i st notes summary rows) i = Some r1 \<and>
      row_after (and_then (update_status c1 i st notes summary rows)
        (update_status c2 i st notes summary)) i =
        Some ((with_note c2 [] notes r1)
          \<lparr>r_updated_at := utcnow c2,
           r_response_date :=
             (if st = RESPONSE_RECEIVED then Some (now c2) else r_response_date r1)\<rparr>)) \<and>
   (\<exists>r1. row_after (mark_response_received c1 i response_text documents response_date rows) i =
        Some r1 \<and>
      row_after (and_then (mark_response_received c1 i response_text documents response_date rows)
        (mark_response_received c2 i response_text documents response_date)) i =
        Some (r1\<lparr>r_updated_at := utcnow c2,
                 r_response_date :=
                   Some (case response_date of None \<Rightarrow> now c2 | Some d \<Rightarrow> d)\<rparr>)) \<and>
   (add_days (case appeal_date of None \<Rightarrow> now c1 | Some d \<Rightarrow> d) 30 = Inr dl1 \<and>
    add_days (case appeal_date of None \<Rightarrow> now c2 | Some d \<Rightarrow> d) 30 = Inr dl2 \<longrightarrow>
      (\<exists>r1. row_after (file_first_appeal c1 i authority appeal_date notes rows) i = Some r1 \<and>
         row_after (and_then (file_first_appeal c1 i authority appeal_date notes rows)
           (file_first_appeal c2 i authority appeal_date notes)) i =
           Some ((with_note c2 (py ''First appeal: '') notes r1)
             \<lparr>r_updated_at := utcnow c2,
              r_first_appeal_date := Some (case appeal_date of None \<Rightarrow> now c2 | Some d \<Rightarrow> d),
              r_first_appeal_deadline := Some dl2\<rparr>))) \<and>
   (add_days (case appeal_date of None \<Rightarrow> now c1 | Some d \<Rightarrow> d) 90 = Inr dl3 \<and>
    add_days (case appeal_date of None \<Rightarrow> now c2 | Some d \<Rightarrow> d) 90 = Inr dl4 \<longrightarrow>
      (\<exists>r1. row_after (file_second_appeal c1 i appeal_date commission notes rows) i = Some r1 \<and>
         row_after (and_then (file_second_appeal c1 i appeal_date commission notes rows)
           (file_second_appeal c2 i appeal_date commission notes)) i =
           Some ((with_note c2 (py ''Second appeal: '') notes r1)
             \<lparr>r_updated_at := utcnow c2,
              r_second_appeal_date := Some (case appeal_date of None \<Rightarrow> now c2 | Some d \<Rightarrow> d),
              r_second_appeal_deadline := Some dl4\<rparr>))) \<and>
   with_note c2 label None r = r \<and>
   (n \<noteq> [] \<longrightarrow>
      with_note c2 label (Some n) r = r\<lparr>r_notes := Some (append_note c2 (r_notes r) label n)\<rparr>)"
proof -
  assume g: "session_get rows i = Some r"
  have a1: "\<exists>r1. row_after (update_status c1 i st notes summary rows) i = Some r1 \<and>
         row_after (and_then (update_status c1 i st notes summary rows)
           (update_status c2 i st notes summary)) i =
           Some ((with_note c2 [] notes r1)\<lparr>r_updated_at := utcnow c2\<rparr>)"
    if "st \<noteq> RESPONSE_RECEIVED"
    using update_status_returns [OF g] update_status_twice_plain [OF g that] by blast
  have b1: "\<exists>r1. row_after (mark_response_received c1 i response_text documents (Some d) rows) i = Some r1 \<and>
      row_after (and_then (mark_response_received c1 i response_text documents (Some d) rows)
        (mark_response_received c2 i response_text documents (Some d))) i =
        Some (r1\<lparr>r_updated_at := utcnow c2\<rparr>)"
    using mark_response_received_returns [OF g] mark_response_received_twice_dated [OF g] by blast
  have c1: "\<exists>r1. row_after (file_first_appeal c1 i authority (Some d) notes rows) i = Some r1 \<and>
         row_after (and_then (file_first_appeal c1 i authority (Some d) notes rows)
           (file_first_appeal c2 i authority (Some d) notes)) i =
           Some ((with_note c2 (py ''First appeal: '') notes r1)\<lparr>r_updated_at := utcnow c2\<rparr>)"
    if "add_days d 30 = Inr dl"
    using file_first_appeal_row [OF g, where appeal_date = "Some d" and clk = c1 and deadline = dl] that
      file_first_appeal_twice_dated [OF g that] by simp
  have e1: "\<exists>r1. row_after (file_second_appeal c1 i (Some d) commission notes rows) i = Some r1 \<and>
         row_after (and_then (file_second_appeal c1 i (Some d) commission notes rows)
           (file_second_appeal c2 i (Some d) commission notes)) i =
           Some ((with_note c2 (py ''Second appeal: '') notes r1)\<lparr>r_updated_at := utcnow c2\<rparr>)"
    if "add_days d 90 = Inr dl"
    using file_second_appeal_row [OF g, where appeal_date = "Some d" and clk = c1 and deadline = dl] that
      file_second_appeal_twice_dated [OF g that] by simp
  have a: "\<exists>r1. row_after (update_status c1 i st notes summary rows) i = Some r1 \<and>
      row_after (and_then (update_status c1 i st notes summary rows)
        (update_status c2 i st notes summary)) i =
        Some ((with_note c2 [] notes r1)
          \<lparr>r_updated_at := utcnow c2,
           r_response_date :=
             (if st = RESPONSE_RECEIVED then Some (now c2) else r_response_date r1)\<rparr>)"
    using update_status_returns [OF g] update_status_twice [OF g] by blast
  have b: "\<exists>r1. row_after (mark_response_received c1 i response_text documents response_date rows) i = Some r1 \<and>
      row_after (and_then (mark_response_received c1 i response_text documents response_date rows)
        (mark_response_received c2 i response_text documents response_date)) i =
        Some (r1\<lparr>r_updated_at := utcnow c2,
                 r_response_date :=
                   Some (case response_date of None \<Rightarrow> now c2 | Some d \<Rightarrow> d)\<rparr>)"
    using mark_response_received_returns [OF g] mark_response_received_twice [OF g] by blast
  have c: "\<exists>r1. row_after (file_first_appeal c1 i authority appeal_date notes rows) i = Some r1 \<and>
         row_after (and_then (file_first_appeal c1 i authority appeal_date notes rows)
           (file_first_appeal c2 i authority appeal_date notes)) i =
           Some ((with_note c2 (py ''First appeal: '') notes r1)
             \<lparr>r_updated_at := utcnow c2,
              r_first_appeal_date := Some (case appeal_date of None \<Rightarrow> now c2 | Some d \<Rightarrow> d),
              r_first_appeal_deadline := Some dl2\<rparr>)"
    if d: "add_days (case appeal_date of None \<Rightarrow> now c1 | Some d \<Rightarrow> d) 30 = Inr dl1"
      "add_days (case appeal_date of None \<Rightarrow> now c2 | Some d \<Rightarrow> d) 30 = Inr dl2"
    using file_first_appeal_row [OF g d(1)] file_first_appeal_twice [OF g d] by blast
  have e: "\<exists>r1. row_after (file_second_appeal c1 i appeal_date commission notes rows) i = Some r1 \<and>
         row_after (and_then (file_second_appeal c1 i appeal_date commission notes rows)
           (file_second_appeal c2 i appeal_date commission notes)) i =
           Some ((with_note c2 (py ''Second appeal: '') notes r1)
             \<lparr>r_updated_at := utcnow c2,
              r_second_appeal_date := Some (case appeal_date of None \<Rightarrow> now c2 | Some d \<Rightarrow> d),
              r_second_appeal_deadline := Some dl4\<rparr>)"
    if d: "add_days (case appeal_date of None \<Rightarrow> now c1 | Some d \<Rightarrow> d) 90 = Inr dl3"
      "add_days (case appeal_date of None \<Rightarrow> now c2 | Some d \<Rightarrow> d) 90 = Inr dl4"
    using file_second_appeal_row [OF g d(1)] file_second_appeal_twice [OF g d] by blast
  show ?thesis
    by (intro conjI impI) (use a1 b1 c1 e1 a b c e in \<open>simp_all add: with_note_Some\<close>)
qed

theorem mutator_invoked_twice_witness:
  "session_get test_db 1 = Some (hd test_db) \<and>
   map_option r_status
     (row_after (update_status test_clock 1 ACKNOWLEDGED (Some (py ''Acknowledged'')) None test_db) 1)
     = Some ACKNOWLEDGED \<and>
   map_option r_notes
     (row_after (update_status test_clock 1 ACKNOWLEDGED (Some (py ''Acknowledged'')) None test_db) 1)
     = Some (Some (py ''[2026-11-03 09:05] Acknowledged'')) \<and>
   map_option r_status
     (row_after
       (and_then (update_status test_clock 1 ACKNOWLEDGED (Some (py ''Acknowledged'')) None test_db)
         (update_status next_day_clock 1 ACKNOWLEDGED (Some (py ''Acknowledged'')) None)) 1)
     = Some ACKNOWLEDGED \<and>
   map_option r_notes
     (row_after
       (and_then (update_status test_clock 1 ACKNOWLEDGED (Some (py ''Acknowledged'')) None test_db)
         (update_status next_day_clock 1 ACKNOWLEDGED (Some (py ''Acknowledged'')) None)) 1)
     = Some (Some (py ''[2026-11-03 09:05] Acknowledged'' @ [10] @
                   py ''[2026-11-04 09:05] Acknowledged''))"
proof -
  let ?n = "Some (py ''Acknowledged'')"
  let ?once = "update_status test_clock 1 ACKNOWLEDGED ?n None test_db"
  let ?twice = "and_then ?once (update_status next_day_clock 1 ACKNOWLEDGED ?n None)"
  have ne: "ACKNOWLEDGED \<noteq> RESPONSE_RECEIVED"
    by simp
  have once: "row_after ?once 1 =
      Some ((hd test_db)\<lparr>r_status := ACKNOWLEDGED, r_updated_at := utcnow test_clock,
              r_notes := Some (py ''[2026-11-03 09:05] Acknowledged'')\<rparr>)"
    by (simp add: update_status_row [OF test_db_get] with_note_def test_db_notes append_note_first)
  obtain r1 where r1: "row_after ?once 1 = Some r1"
    "row_after ?twice 1 = Some ((with_note next_day_clock [] ?n r1)\<lparr>r_updated_at := utcnow next_day_clock\<rparr>)"
    using mutator_invoked_twice [OF test_db_get, THEN conjunct1, rule_format, OF ne] by blast
  have f: "r_status r1 = ACKNOWLEDGED" "r_notes r1 = Some (py ''[2026-11-03 09:05] Acknowledged'')"
    using once r1(1) by auto
  have twice: "map_option r_status (row_after ?twice 1) = Some ACKNOWLEDGED"
    "map_option r_notes (row_after ?twice 1) =
       Some (Some (py ''[2026-11-03 09:05] Acknowledged'' @ [10] @
                   py ''[2026-11-04 09:05] Acknowledged''))"
    using f by (simp_all add: r1(2) with_note_def append_note_second)
  show ?thesis
    using test_db_get r1(1) f twice by simp
qed

text \<open>
  Claim C9 as it is worded fails on fields other than the notes: a first appeal filed
  twice without a date has the deadline of the second invocation's clock, and
  \<^verbatim>\<open>updated_at\<close> is that of the second invocation.
\<close>

theorem mutator_invoked_twice_counterexample:
  "map_option r_first_appeal_deadline
     (row_after (file_first_appeal test_clock 1 (py ''Secretary, AWBI'') None None test_db) 1) =
     Some (Some \<lparr>ordinal = 739953, hour = 9, minute = 5, second = 0, microsecond = 0\<rparr>) \<and>
   map_option r_first_appeal_deadline
     (row_after
       (and_then (file_first_appeal test_clock 1 (py ''Secretary, AWBI'') None None test_db)
         (file_first_appeal next_day_clock 1 (py ''Secretary, AWBI'') None None)) 1) =
     Some (Some \<lparr>ordinal = 739954, hour = 9, minute = 5, second = 0, microsecond = 0\<rparr>) \<and>
   map_option r_updated_at
     (row_after (update_status test_clock 1 ACKNOWLEDGED None None test_db) 1) =
     Some \<lparr>ordinal = 739923, hour = 3, minute = 35, second = 0, microsecond = 0\<rparr> \<and>
   map_option r_updated_at
     (row_after
       (and_then (update_status test_clock 1 ACKNOWLEDGED None None test_db)
         (update_status next_day_clock 1 ACKNOWLEDGED None None)) 1) =
     Some \<lparr>ordinal = 739924, hour = 3, minute = 35, second = 0, microsecond = 0\<rparr>"
proof -
  have d1: "add_days (case None of None \<Rightarrow> now test_clock | Some d \<Rightarrow> d) 30 =
      Inr \<lparr>ordinal = 739953, hour = 9, minute = 5, second = 0, microsecond = 0\<rparr>"
    by (simp add: add_days_def test_clock_def MAXORDINAL_def)
  have d2: "add_days (case None of None \<Rightarrow> now next_day_clock | Some d \<Rightarrow> d) 30 =
      Inr \<lparr>ordinal = 739954, hour = 9, minute = 5, second = 0, microsecond = 0\<rparr>"
    by (simp add: add_days_def next_day_clock_def MAXORDINAL_def)
  note a = file_first_appeal_row [OF test_db_get d1, of "py ''Secretary, AWBI''" None]
  note b = file_first_appeal_twice [OF test_db_get d1 d2 a]
  note c = update_status_row [OF test_db_get, of test_clock ACKNOWLEDGED None None]
  note d = update_status_twice [OF test_db_get c, of next_day_clock]
  show ?thesis
    by (simp add: a b c d) (simp add: test_clock_def next_day_clock_def)
qed

section \<open>The bilingual rendering\<close>

lemma generate_english_language [simp]:
  "generate_english
     \<lparr>ctx_app = app\<lparr>language := l\<rparr>, ctx_agency = a, ctx_fee = b, ctx_date = c, ctx_date_hi = d,
      ctx_response_deadline = e, ctx_first_appeal_deadline = f\<rparr> =
   generate_english
     \<lparr>ctx_app = app, ctx_agency = a, ctx_fee = b, ctx_date = c, ctx_date_hi = d,
      ctx_response_deadline = e, ctx_first_appeal_deadline = f\<rparr>"
  by (simp add: generate_english_def Let_def)

lemma generate_hindi_language [simp]:
  "generate_hindi
     \<lparr>ctx_app = app\<lparr>language := l\<rparr>, ctx_agency = a, ctx_fee = b, ctx_date = c, ctx_date_hi = d,
      ctx_response_deadline = e, ctx_first_appeal_deadline = f\<rparr> =
   generate_hindi
     \<lparr>ctx_app = app, ctx_agency = a, ctx_fee = b, ctx_date = c, ctx_date_hi = d,
      ctx_response_deadline = e, ctx_first_appeal_deadline = f\<rparr>"
  by (simp add: generate_hindi_def Let_def)

lemma generate_bilingual_banners:
  "generate_bilingual ctx =
     english_banner @ generate_english ctx @ hindi_banner @ generate_hindi ctx"
  by (simp add: generate_bilingual_def english_banner_def hindi_banner_def Let_def)


lemma deadlines_language [simp]:
  "response_deadline (app\<lparr>language := l\<rparr>) = response_deadline app"
  "first_appeal_deadline (app\<lparr>language := l\<rparr>) = first_appeal_deadline app"
  "fee_amount (app\<lparr>language := l\<rparr>) = fee_amount app"
  by (simp_all add: response_deadline_def first_appeal_deadline_def fee_amount_def
      split: option.split)

text \<open>The context \<open>generate\<close> builds, when it gets that far.\<close>

lemma rendered_text_generate:
  "rendered_text (generate (app\<lparr>language := l\<rparr>)) =
     (case filing_date app of
        None \<Rightarrow> Inl AttributeError
      | Some filed \<Rightarrow>
          (case response_deadline app of
             Inl e \<Rightarrow> Inl e
           | Inr deadline1 \<Rightarrow>
               (case first_appeal_deadline app of
                  Inl e \<Rightarrow> Inl e
                | Inr deadline2 \<Rightarrow>
                    Inr (let ctx =
                           \<lparr>ctx_app = app,
                            ctx_agency = dict_get AGENCY_DIRECTORY (agency_code app) [],
                            ctx_fee = fee_amount app,
                            ctx_date = strftime_dmY filed,
                            ctx_date_hi = format_date_hindi filed,
                            ctx_response_deadline = strftime_dmY deadline1,
                            ctx_first_appeal_deadline = strftime_dmY deadline2\<rparr>
                         in if l = py ''hindi'' then generate_hindi ctx
                            else if l = py ''bilingual'' then generate_bilingual ctx
                            else generate_english ctx))))"
  by (simp add: generate_def rendered_text_def Let_def generate_bilingual_banners
      split: option.split sum.split)

text \<open>
  Claim C7. For every application the bilingual rendering is the English banner, the
  English rendering, the Hindi banner and the Hindi rendering of the same application,
  in that order: with the two banners taken out, what is left is the output of the
  English-only call followed by the output of the Hindi-only call. The bilingual call
  raises exactly when the single-language calls do.
\<close>

theorem bilingual_rendering:
  "generate_bilingual ctx =
     english_banner @ generate_english ctx @ hindi_banner @ generate_hindi ctx \<and>
   rendered_text (generate (app\<lparr>language := py ''bilingual''\<rparr>)) =
     (case rendered_text (generate (app\<lparr>language := py ''english''\<rparr>)) of
        Inl e \<Rightarrow> Inl e
      | Inr english \<Rightarrow>
          (case rendered_text (generate (app\<lparr>language := py ''hindi''\<rparr>)) of
             Inl e \<Rightarrow> Inl e
           | Inr hindi \<Rightarrow> Inr (english_banner @ english @ hindi_banner @ hindi)))"
  by (simp add: generate_bilingual_banners rendered_text_generate Let_def
      split: option.split sum.split)

theorem bilingual_rendering_witness:
  "\<exists>english hindi.
     rendered_text (generate (test_application\<lparr>language := py ''english''\<rparr>)) = Inr english \<and>
     rendered_text (generate (test_application\<lparr>language := py ''hindi''\<rparr>)) = Inr hindi \<and>
     rendered_text (generate (test_application\<lparr>language := py ''bilingual''\<rparr>)) =
       Inr (english_banner @ english @ hindi_banner @ hindi)"
proof -
  have fd: "filing_date test_application = Some (mk_date 2026 1 1)"
    by (simp add: test_application_def)
  have r: "response_deadline test_application = Inr (mk_date 2026 1 31)"
    by (simp add: response_deadline_def fd add_days_def MAXORDINAL_def mk_date_2026_01_01
        mk_date_2026_01_31)
  have f: "first_appeal_deadline test_application = Inr (mk_date 2026 3 2)"
    by (simp add: first_appeal_deadline_def r add_days_def MAXORDINAL_def mk_date_2026_01_31
        mk_date_2026_03_02)
  obtain english where e:
    "rendered_text (generate (test_application\<lparr>language := py ''english''\<rparr>)) = Inr english"
    by (simp add: rendered_text_generate fd r f)
  obtain hindi where h:
    "rendered_text (generate (test_application\<lparr>language := py ''hindi''\<rparr>)) = Inr hindi"
    by (simp add: rendered_text_generate fd r f)
  have "rendered_text (generate (test_application\<lparr>language := py ''bilingual''\<rparr>)) =
       Inr (english_banner @ english @ hindi_banner @ hindi)"
    using bilingual_rendering [where app = test_application, THEN conjunct2] e h by simp
  with e h show ?thesis
    by blast
qed

end
